theory Spec2Isabelle
  imports Main "HOL-Library.AList"
begin

section \<open>Python values\<close>

text \<open>
  The program handles the values that \<^verbatim>\<open>response.json()\<close> produces: \<^verbatim>\<open>None\<close>,
  booleans, integers, floats, strings, lists and dictionaries. A dictionary is an
  association list in insertion order whose first binding of a key is the dictionary's
  entry. A character is a code point below 256.

  A float comes from a JSON number with a fraction or an exponent, or from \<^verbatim>\<open>Infinity\<close>,
  \<^verbatim>\<open>-Infinity\<close> and \<^verbatim>\<open>NaN\<close>, which Python's parser accepts; a number too large for a
  double, such as \<^verbatim>\<open>1e999\<close>, is an infinity. A finite float is \<open>m \<sqdot> 2\<^sup>e\<close> and carries
  the text that \<^verbatim>\<open>str\<close> prints for it: the digits Python chooses are not modelled.
\<close>

datatype pyfloat = Finite int int string | PosInf | NegInf | NaN

datatype jv =
    JNull
  | JBool bool
  | JInt int
  | JFloat pyfloat
  | JStr string
  | JArr "jv list"
  | JObj "(string \<times> jv) list"

datatype request_exception =
    ConnectionError
  | HTTPError nat
  | JSONDecodeError

datatype error =
    AttributeError
  | TypeError
  | CookieConflictError
  | SessionCookieMissing
  | SessionInitFailed request_exception
  | SessionNotInitialized
  | FetchPageFailed request_exception

text \<open>Truth value testing: \<^verbatim>\<open>if x:\<close>, \<^verbatim>\<open>not x\<close>, \<^verbatim>\<open>x and y\<close>.\<close>

fun truthy :: "jv \<Rightarrow> bool" where
  "truthy JNull = False"
| "truthy (JBool b) = b"
| "truthy (JInt i) = (i \<noteq> 0)"
| "truthy (JFloat (Finite m e t)) = (m \<noteq> 0)"
| "truthy (JFloat _) = True"
| "truthy (JStr s) = (s \<noteq> [])"
| "truthy (JArr xs) = (xs \<noteq> [])"
| "truthy (JObj kvs) = (kvs \<noteq> [])"

text \<open>\<^verbatim>\<open>x.get(key, default)\<close>: only a dictionary has the method.\<close>

definition dict_get :: "(string \<times> jv) list \<Rightarrow> string \<Rightarrow> jv \<Rightarrow> jv" where
  "dict_get kvs k d = (case map_of kvs k of None \<Rightarrow> d | Some v \<Rightarrow> v)"

fun py_get :: "jv \<Rightarrow> string \<Rightarrow> jv \<Rightarrow> error + jv" where
  "py_get (JObj kvs) k d = Inr (dict_get kvs k d)"
| "py_get _ k d = Inl AttributeError"

text \<open>\<^verbatim>\<open>d[key] = value\<close> on a dictionary: an existing key keeps its place.\<close>

definition dict_set :: "(string \<times> jv) list \<Rightarrow> string \<Rightarrow> jv \<Rightarrow> (string \<times> jv) list" where
  "dict_set kvs k v = AList.update k v kvs"

text \<open>The entries of a dictionary, each key once with its value, in insertion order.\<close>

fun dict_items :: "(string \<times> 'a) list \<Rightarrow> (string \<times> 'a) list" where
  "dict_items [] = []"
| "dict_items (p # kvs) = p # dict_items (filter (\<lambda>q. fst q \<noteq> fst p) kvs)"

definition dict_keys :: "(string \<times> jv) list \<Rightarrow> string list" where
  "dict_keys kvs = map fst (dict_items kvs)"

text \<open>
  Iteration (\<^verbatim>\<open>for x in v\<close>, \<^verbatim>\<open>list.extend(v)\<close>): a list gives its elements, a string
  its characters as one-character strings, a dictionary its keys; anything else is not
  iterable.
\<close>

fun py_iter :: "jv \<Rightarrow> error + jv list" where
  "py_iter (JArr xs) = Inr xs"
| "py_iter (JStr s) = Inr (map (\<lambda>c. JStr [c]) s)"
| "py_iter (JObj kvs) = Inr (map JStr (dict_keys kvs))"
| "py_iter _ = Inl TypeError"

text \<open>
  \<^verbatim>\<open>n >= v\<close> for an integer \<^verbatim>\<open>n\<close>: \<^verbatim>\<open>v\<close> must be a number (\<^verbatim>\<open>bool\<close> is one). An integer
  and a float are compared by their exact values; nothing is at least \<^verbatim>\<open>inf\<close>, and every
  comparison with \<^verbatim>\<open>nan\<close> is false.
\<close>

fun int_ge_float :: "int \<Rightarrow> pyfloat \<Rightarrow> bool" where
  "int_ge_float n (Finite m e t) =
     (if 0 \<le> e then m * 2 ^ nat e \<le> n else m \<le> n * 2 ^ nat (- e))"
| "int_ge_float n PosInf = False"
| "int_ge_float n NegInf = True"
| "int_ge_float n NaN = False"

fun py_ge :: "int \<Rightarrow> jv \<Rightarrow> error + bool" where
  "py_ge n (JInt m) = Inr (n \<ge> m)"
| "py_ge n (JBool b) = Inr (n \<ge> (if b then 1 else 0))"
| "py_ge n (JFloat f) = Inr (int_ge_float n f)"
| "py_ge n _ = Inl TypeError"

subsection \<open>Strings\<close>

text \<open>\<^verbatim>\<open>sep.join(xs)\<close> on strings.\<close>

fun join :: "string \<Rightarrow> string list \<Rightarrow> string" where
  "join sep [] = []"
| "join sep [x] = x"
| "join sep (x # y # ys) = x @ sep @ join sep (y # ys)"

text \<open>\<^verbatim>\<open>sep.join(xs)\<close> on values: every item must be a string.\<close>

fun the_strs :: "jv list \<Rightarrow> error + string list" where
  "the_strs [] = Inr []"
| "the_strs (JStr s # vs) = (case the_strs vs of Inl e \<Rightarrow> Inl e | Inr ss \<Rightarrow> Inr (s # ss))"
| "the_strs (_ # vs) = Inl TypeError"

definition py_join :: "string \<Rightarrow> jv list \<Rightarrow> error + string" where
  "py_join sep vs = (case the_strs vs of Inl e \<Rightarrow> Inl e | Inr ss \<Rightarrow> Inr (join sep ss))"

text \<open>\<^verbatim>\<open>str.isspace\<close> on one character, and \<^verbatim>\<open>str.strip()\<close>.\<close>

definition py_isspace :: "char \<Rightarrow> bool" where
  "py_isspace c = (let n = (of_char c :: nat) in
     (9 \<le> n \<and> n \<le> 13) \<or> (28 \<le> n \<and> n \<le> 32) \<or> n = 133 \<or> n = 160)"

definition strip :: "string \<Rightarrow> string" where
  "strip s = rev (dropWhile py_isspace (rev (dropWhile py_isspace s)))"

text \<open>\<^verbatim>\<open>c.upper()\<close> on an ASCII character.\<close>

definition upper_char :: "char \<Rightarrow> char" where
  "upper_char c = (let n = (of_char c :: nat) in
     if 97 \<le> n \<and> n \<le> 122 then char_of (n - 32) else c)"

text \<open>\<^verbatim>\<open>str(n)\<close> for an integer.\<close>

definition digit_char :: "nat \<Rightarrow> char" where
  "digit_char d = char_of (48 + d)"

function show_nat :: "nat \<Rightarrow> string" where
  "show_nat n = (if n < 10 then [digit_char n] else show_nat (n div 10) @ [digit_char (n mod 10)])"
  by pat_completeness auto
termination
  by (relation "measure id") auto

definition show_int :: "int \<Rightarrow> string" where
  "show_int i = (if i < 0 then CHR ''-'' # show_nat (nat (- i)) else show_nat (nat i))"

text \<open>
  \<^verbatim>\<open>repr(s)\<close> for a string: single quotes unless the string has a single quote and no
  double quote; backslash, the quote, tab, newline and carriage return are escaped with
  a backslash, every other unprintable character as \<^verbatim>\<open>\xNN\<close>.
\<close>

definition hex_digit :: "nat \<Rightarrow> char" where
  "hex_digit d = (if d < 10 then char_of (48 + d) else char_of (87 + d))"

definition unprintable :: "char \<Rightarrow> bool" where
  "unprintable c = (let n = (of_char c :: nat) in
     n < 32 \<or> n = 127 \<or> (128 \<le> n \<and> n \<le> 160) \<or> n = 173)"

definition repr_char :: "char \<Rightarrow> char \<Rightarrow> string" where
  "repr_char q c =
     (if c = q \<or> c = CHR 0x5C then [CHR 0x5C, c]
      else if c = CHR 0x09 then [CHR 0x5C, CHR ''t'']
      else if c = CHR 0x0A then [CHR 0x5C, CHR ''n'']
      else if c = CHR 0x0D then [CHR 0x5C, CHR ''r'']
      else if unprintable c then
        [CHR 0x5C, CHR ''x'', hex_digit (of_char c div 16), hex_digit (of_char c mod 16)]
      else [c])"

definition repr_str :: "string \<Rightarrow> string" where
  "repr_str s =
     (let q = (if CHR 0x27 \<in> set s \<and> CHR 0x22 \<notin> set s then CHR 0x22 else CHR 0x27)
      in [q] @ concat (map (repr_char q) s) @ [q])"

text \<open>
  \<^verbatim>\<open>repr(v)\<close> and \<^verbatim>\<open>str(v)\<close>, which is what an f-string field \<^verbatim>\<open>{v}\<close> renders: they
  differ on a string only.
\<close>

fun float_str :: "pyfloat \<Rightarrow> string" where
  "float_str (Finite m e t) = t"
| "float_str PosInf = ''inf''"
| "float_str NegInf = ''-inf''"
| "float_str NaN = ''nan''"

fun py_repr :: "jv \<Rightarrow> string" where
  "py_repr JNull = ''None''"
| "py_repr (JBool b) = (if b then ''True'' else ''False'')"
| "py_repr (JInt i) = show_int i"
| "py_repr (JFloat f) = float_str f"
| "py_repr (JStr s) = repr_str s"
| "py_repr (JArr xs) = ''['' @ join '', '' (map py_repr xs) @ '']''"
| "py_repr (JObj kvs) =
     ''{'' @ join '', '' (map (\<lambda>p. repr_str (fst p) @ '': '' @ snd p)
        (dict_items (map (\<lambda>p. (fst p, py_repr (snd p))) kvs))) @ ''}''"

fun py_str :: "jv \<Rightarrow> string" where
  "py_str (JStr s) = s"
| "py_str v = py_repr v"

section \<open>The catalog service\<close>

text \<open>
  The four requests the client sends: the form POST that opens a search session, a page
  of search results (term, \<^verbatim>\<open>pageOffset\<close>, \<^verbatim>\<open>pageMaxSize\<close>, the \<^verbatim>\<open>JSESSIONID\<close> sent as
  cookie), and the two per-course lookups (term, course reference number). The fixed
  query parameters and headers and the clock-derived \<^verbatim>\<open>uniqueSessionId\<close> are left out.
\<close>

datatype request =
    TermSearch string
  | SearchResults string int int string
  | ClassDetails string jv
  | FacultyMeetingTimes string jv

text \<open>
  The text of a response: empty, text that is not JSON, or the JSON value it parses to.
\<close>

datatype body = NoText | NotJson | Json jv

record response =
  status_code :: nat
  cookies :: "(string \<times> string option) list"
  content :: body

text \<open>
  A call of \<^verbatim>\<open>session.get\<close> or \<^verbatim>\<open>session.post\<close> raises a \<^verbatim>\<open>RequestException\<close> (no
  connection, timeout, ...) or returns a response. The service may answer a request
  depending on everything it was sent before.
\<close>

datatype http_result = Failed | Response response

type_synonym server = "request list \<Rightarrow> request \<Rightarrow> http_result"

text \<open>
  The client object: \<^verbatim>\<open>self.session_cookie\<close>, and the requests sent so far, in order
  (kept to count requests; the program does not read it).
\<close>

record client =
  session_cookie :: "string option"
  sent :: "request list"

definition send :: "server \<Rightarrow> request \<Rightarrow> client \<Rightarrow> http_result \<times> client" where
  "send srv rq cl = (srv (sent cl) rq, cl\<lparr>sent := sent cl @ [rq]\<rparr>)"

text \<open>\<^verbatim>\<open>response.raise_for_status()\<close> raises on a status from 400 to 599.\<close>

definition raise_for_status :: "response \<Rightarrow> request_exception option" where
  "raise_for_status r =
     (if 400 \<le> status_code r \<and> status_code r < 600 then Some (HTTPError (status_code r))
      else None)"

text \<open>
  \<^verbatim>\<open>response.json()\<close>: the decoding error of requests (2.27 and later) is a
  \<^verbatim>\<open>RequestException\<close>.
\<close>

definition json :: "response \<Rightarrow> request_exception + jv" where
  "json r = (case content r of Json v \<Rightarrow> Inr v | _ \<Rightarrow> Inl JSONDecodeError)"

text \<open>
  \<^verbatim>\<open>response.cookies.get(name)\<close>. The jar is read in its order; a second cookie of the
  name (under another domain or path) after one that has a value raises
  \<^verbatim>\<open>CookieConflictError\<close>, which is not a \<^verbatim>\<open>RequestException\<close>; a cookie found without a
  value, or with the empty value, counts as not found and gives the default \<^verbatim>\<open>None\<close>.
\<close>

fun find_no_duplicates ::
  "string \<Rightarrow> string option \<Rightarrow> (string \<times> string option) list \<Rightarrow> error + string option" where
  "find_no_duplicates name toReturn [] = Inr toReturn"
| "find_no_duplicates name toReturn (cookie # jar) =
     (if fst cookie = name then
        (if toReturn \<noteq> None then Inl CookieConflictError
         else find_no_duplicates name (snd cookie) jar)
      else find_no_duplicates name toReturn jar)"

definition cookies_get :: "(string \<times> string option) list \<Rightarrow> string \<Rightarrow> error + string option" where
  "cookies_get jar name =
     (case find_no_duplicates name None jar of
        Inl e \<Rightarrow> Inl e
      | Inr None \<Rightarrow> Inr None
      | Inr (Some v) \<Rightarrow> Inr (if v = [] then None else Some v))"

section \<open>LeopardWebClient\<close>

definition initialize_search_session ::
  "server \<Rightarrow> string \<Rightarrow> client \<Rightarrow> (error + string) \<times> client" where
  "initialize_search_session srv term cl =
     (case send srv (TermSearch term) cl of
        (Failed, cl1) \<Rightarrow> (Inl (SessionInitFailed ConnectionError), cl1)
      | (Response r, cl1) \<Rightarrow>
          (case raise_for_status r of
             Some e \<Rightarrow> (Inl (SessionInitFailed e), cl1)
           | None \<Rightarrow>
               (case cookies_get (cookies r) ''JSESSIONID'' of
                  Inl e \<Rightarrow> (Inl e, cl1)
                | Inr None \<Rightarrow> (Inl SessionCookieMissing, cl1)
                | Inr (Some jsessionid) \<Rightarrow>
                    if jsessionid = [] then (Inl SessionCookieMissing, cl1)
                    else (Inr jsessionid, cl1\<lparr>session_cookie := Some jsessionid\<rparr>))))"

definition fetch_catalog_page ::
  "server \<Rightarrow> string \<Rightarrow> int \<Rightarrow> int \<Rightarrow> client \<Rightarrow> (error + jv) \<times> client" where
  "fetch_catalog_page srv term offset page_size cl =
     (case session_cookie cl of
        None \<Rightarrow> (Inl SessionNotInitialized, cl)
      | Some c \<Rightarrow>
          if c = [] then (Inl SessionNotInitialized, cl)
          else
            (case send srv (SearchResults term offset page_size c) cl of
               (Failed, cl1) \<Rightarrow> (Inl (FetchPageFailed ConnectionError), cl1)
             | (Response r, cl1) \<Rightarrow>
                 (case raise_for_status r of
                    Some e \<Rightarrow> (Inl (FetchPageFailed e), cl1)
                  | None \<Rightarrow>
                      (case json r of
                         Inl e \<Rightarrow> (Inl (FetchPageFailed e), cl1)
                       | Inr data \<Rightarrow> (Inr data, cl1)))))"

text \<open>
  The two lookups have the same body but for the address: they return \<^verbatim>\<open>None\<close>
  (\<^const>\<open>JNull\<close>) on every \<^verbatim>\<open>RequestException\<close> (that of \<^verbatim>\<open>response.json()\<close> too) and on
  an empty text, and the parsed value otherwise.
\<close>

definition lookup :: "server \<Rightarrow> request \<Rightarrow> client \<Rightarrow> jv \<times> client" where
  "lookup srv rq cl =
     (case send srv rq cl of
        (Failed, cl1) \<Rightarrow> (JNull, cl1)
      | (Response r, cl1) \<Rightarrow>
          (case raise_for_status r of
             Some e \<Rightarrow> (JNull, cl1)
           | None \<Rightarrow>
               (case content r of
                  NoText \<Rightarrow> (JNull, cl1)
                | NotJson \<Rightarrow> (JNull, cl1)
                | Json v \<Rightarrow> (v, cl1))))"

definition get_class_details :: "server \<Rightarrow> string \<Rightarrow> jv \<Rightarrow> client \<Rightarrow> jv \<times> client" where
  "get_class_details srv term crn cl = lookup srv (ClassDetails term crn) cl"

definition get_faculty_meeting_times :: "server \<Rightarrow> string \<Rightarrow> jv \<Rightarrow> client \<Rightarrow> jv \<times> client" where
  "get_faculty_meeting_times srv term crn cl = lookup srv (FacultyMeetingTimes term crn) cl"

subsection \<open>The catalog fetch loop\<close>

text \<open>
  The variables of the \<^verbatim>\<open>while True\<close> loop of \<^verbatim>\<open>get_course_catalog\<close>; \<^verbatim>\<open>total_count\<close>
  is \<^verbatim>\<open>None\<close> until the first page sets it. One run of the body raises, breaks with the
  accumulated courses, or goes on with new values of the variables.
\<close>

record loop_state =
  offset :: int
  total_count :: jv
  all_courses :: "jv list"

datatype outcome = Raise error | Break "jv list" | Continue loop_state

definition page_size :: int where
  "page_size = 500"

definition loop_body :: "server \<Rightarrow> string \<Rightarrow> loop_state \<Rightarrow> client \<Rightarrow> outcome \<times> client" where
  "loop_body srv term s cl =
     (case fetch_catalog_page srv term (offset s) page_size cl of
        (Inl e, cl1) \<Rightarrow> (Raise e, cl1)
      | (Inr data, cl1) \<Rightarrow>
          (case py_get data ''data'' (JArr []) of
             Inl e \<Rightarrow> (Raise e, cl1)
           | Inr courses \<Rightarrow>
               (case (if total_count s = JNull then py_get data ''totalCount'' (JInt 0)
                      else Inr (total_count s)) of
                  Inl e \<Rightarrow> (Raise e, cl1)
                | Inr total_count1 \<Rightarrow>
                    (case py_iter courses of
                       Inl e \<Rightarrow> (Raise e, cl1)
                     | Inr cs \<Rightarrow>
                         (case py_ge (int (length (all_courses s @ cs))) total_count1 of
                            Inl e \<Rightarrow> (Raise e, cl1)
                          | Inr reached \<Rightarrow>
                              if reached \<or> \<not> truthy courses
                              then (Break (all_courses s @ cs), cl1)
                              else (Continue \<lparr>offset = offset s + page_size,
                                               total_count = total_count1,
                                               all_courses = all_courses s @ cs\<rparr>, cl1))))))"

text \<open>
  The loop itself. It need not return: the result is \<^const>\<open>None\<close> when the body goes on
  for ever.
\<close>

partial_function (option) fetch_loop ::
  "server \<Rightarrow> string \<Rightarrow> loop_state \<Rightarrow> client \<Rightarrow> ((error + jv list) \<times> client) option" where
  "fetch_loop srv term s cl =
     (case loop_body srv term s cl of
        (Raise e, cl1) \<Rightarrow> Some (Inl e, cl1)
      | (Break courses, cl1) \<Rightarrow> Some (Inr courses, cl1)
      | (Continue s1, cl1) \<Rightarrow> fetch_loop srv term s1 cl1)"

subsection \<open>Enrichment\<close>

text \<open>
  The body of the \<^verbatim>\<open>for course in course_iterator\<close> loop. \<^verbatim>\<open>course.get\<close> raises on
  anything but a dictionary; the two assignments mutate the course in place.
\<close>

definition enrich_course :: "server \<Rightarrow> string \<Rightarrow> jv \<Rightarrow> client \<Rightarrow> (error + jv) \<times> client" where
  "enrich_course srv term course cl =
     (case course of
        JObj kvs \<Rightarrow>
          (let crn = dict_get kvs ''courseReferenceNumber'' JNull in
           if truthy crn then
             (case get_class_details srv term crn cl of
                (details, cl1) \<Rightarrow>
                  (let kvs1 = (if truthy details then dict_set kvs ''_detailed'' details else kvs) in
                   case get_faculty_meeting_times srv term crn cl1 of
                     (meeting_times, cl2) \<Rightarrow>
                       if truthy meeting_times then
                         (case py_get meeting_times ''fmt'' JNull of
                            Inl e \<Rightarrow> (Inl e, cl2)
                          | Inr fmt \<Rightarrow>
                              if truthy fmt
                              then (Inr (JObj (dict_set kvs1 ''_faculty_meeting_times'' fmt)), cl2)
                              else (Inr (JObj kvs1), cl2))
                       else (Inr (JObj kvs1), cl2)))
           else (Inr course, cl))
      | _ \<Rightarrow> (Inl AttributeError, cl))"

fun enrich :: "server \<Rightarrow> string \<Rightarrow> jv list \<Rightarrow> client \<Rightarrow> (error + jv list) \<times> client" where
  "enrich srv term [] cl = (Inr [], cl)"
| "enrich srv term (course # rest) cl =
     (case enrich_course srv term course cl of
        (Inl e, cl1) \<Rightarrow> (Inl e, cl1)
      | (Inr course1, cl1) \<Rightarrow>
          (case enrich srv term rest cl1 of
             (Inl e, cl2) \<Rightarrow> (Inl e, cl2)
           | (Inr rest1, cl2) \<Rightarrow> (Inr (course1 # rest1), cl2)))"

subsection \<open>get_course_catalog\<close>

text \<open>Progress messages and the progress bar are not modelled.\<close>

definition get_course_catalog ::
  "server \<Rightarrow> string \<Rightarrow> bool \<Rightarrow> client \<Rightarrow> ((error + jv list) \<times> client) option" where
  "get_course_catalog srv term detailed cl =
     (case initialize_search_session srv term cl of
        (Inl e, cl1) \<Rightarrow> Some (Inl e, cl1)
      | (Inr jsessionid, cl1) \<Rightarrow>
          (case fetch_loop srv term \<lparr>offset = 0, total_count = JNull, all_courses = []\<rparr> cl1 of
             None \<Rightarrow> None
           | Some (Inl e, cl2) \<Rightarrow> Some (Inl e, cl2)
           | Some (Inr courses, cl2) \<Rightarrow>
               if detailed \<and> courses \<noteq> [] then Some (enrich srv term courses cl2)
               else Some (Inr courses, cl2)))"

section \<open>flatten_course_data\<close>

text \<open>The first loop: the truthy \<^verbatim>\<open>displayName\<close> of every faculty entry.\<close>

fun faculty_loop :: "jv list \<Rightarrow> error + jv list" where
  "faculty_loop [] = Inr []"
| "faculty_loop (faculty # rest) =
     (case py_get faculty ''displayName'' (JStr []) of
        Inl e \<Rightarrow> Inl e
      | Inr display_name \<Rightarrow>
          (case faculty_loop rest of
             Inl e \<Rightarrow> Inl e
           | Inr names \<Rightarrow> Inr (if truthy display_name then display_name # names else names)))"

definition faculty_names :: "(string \<times> jv) list \<Rightarrow> error + jv list" where
  "faculty_names course =
     (let faculty = dict_get course ''faculty'' JNull in
      if truthy faculty then
        (case py_iter faculty of Inl e \<Rightarrow> Inl e | Inr entries \<Rightarrow> faculty_loop entries)
      else Inr [])"

text \<open>
  The three lists a meeting loop fills. The locations of the faculty-meeting-time branch
  are values: without a room, \<^verbatim>\<open>location\<close> is whatever the entry holds as building.
\<close>

record meetings =
  meeting_days :: "string list"
  meeting_times :: "string list"
  meeting_locations :: "jv list"

definition day_names :: "string list" where
  "day_names = [''monday'', ''tuesday'', ''wednesday'', ''thursday'', ''friday'',
                ''saturday'', ''sunday'']"

text \<open>The inner loop over the days: \<^verbatim>\<open>day[0].upper()\<close> of every day whose flag is truthy.\<close>

definition week_days :: "(string \<times> jv) list \<Rightarrow> string list" where
  "week_days mt =
     map (\<lambda>day. map upper_char (take 1 day))
       (filter (\<lambda>day. truthy (dict_get mt day JNull)) day_names)"

definition add_days :: "(string \<times> jv) list \<Rightarrow> meetings \<Rightarrow> meetings" where
  "add_days mt acc =
     (let days = week_days mt in
      if days \<noteq> [] then acc\<lparr>meeting_days := meeting_days acc @ [join [] days]\<rparr> else acc)"

definition add_times :: "(string \<times> jv) list \<Rightarrow> meetings \<Rightarrow> meetings" where
  "add_times mt acc =
     (let begin_time = dict_get mt ''beginTime'' (JStr []);
          end_time = dict_get mt ''endTime'' (JStr [])
      in if truthy begin_time \<and> truthy end_time
         then acc\<lparr>meeting_times := meeting_times acc @ [py_str begin_time @ ''-'' @ py_str end_time]\<rparr>
         else acc)"

text \<open>The location of an entry of \<^verbatim>\<open>_faculty_meeting_times\<close>.\<close>

definition add_fmt_location :: "(string \<times> jv) list \<Rightarrow> meetings \<Rightarrow> meetings" where
  "add_fmt_location mt acc =
     (let building = dict_get mt ''building'' (JStr []);
          building_desc = dict_get mt ''buildingDescription'' (JStr []);
          room = dict_get mt ''room'' (JStr []);
          location = (if truthy building_desc then building_desc else building);
          location1 = (if truthy room then JStr (strip (py_str location @ '' '' @ py_str room))
                       else location)
      in if truthy location1
         then acc\<lparr>meeting_locations := meeting_locations acc @ [location1]\<rparr>
         else acc)"

text \<open>The location of an entry of \<^verbatim>\<open>meetingsFaculty\<close>.\<close>

definition add_location :: "(string \<times> jv) list \<Rightarrow> meetings \<Rightarrow> meetings" where
  "add_location mt acc =
     (let building = dict_get mt ''building'' (JStr []);
          room = dict_get mt ''room'' (JStr [])
      in if truthy building \<or> truthy room
         then acc\<lparr>meeting_locations :=
                meeting_locations acc @ [JStr (strip (py_str building @ '' '' @ py_str room))]\<rparr>
         else acc)"

text \<open>
  One run of the body of either meeting loop. \<^verbatim>\<open>mt.get\<close> raises unless the entry's
  \<^verbatim>\<open>meetingTime\<close> is a dictionary (the default, when the key is missing, is \<^verbatim>\<open>{}\<close>).
\<close>

definition fmt_entry :: "meetings \<Rightarrow> jv \<Rightarrow> error + meetings" where
  "fmt_entry acc fmt_data =
     (case py_get fmt_data ''meetingTime'' (JObj []) of
        Inl e \<Rightarrow> Inl e
      | Inr (JObj mt) \<Rightarrow> Inr (add_fmt_location mt (add_times mt (add_days mt acc)))
      | Inr _ \<Rightarrow> Inl AttributeError)"

definition meeting_entry :: "meetings \<Rightarrow> jv \<Rightarrow> error + meetings" where
  "meeting_entry acc meeting =
     (case py_get meeting ''meetingTime'' (JObj []) of
        Inl e \<Rightarrow> Inl e
      | Inr (JObj mt) \<Rightarrow> Inr (add_location mt (add_times mt (add_days mt acc)))
      | Inr _ \<Rightarrow> Inl AttributeError)"

fun for_each :: "(meetings \<Rightarrow> jv \<Rightarrow> error + meetings) \<Rightarrow> meetings \<Rightarrow> jv list \<Rightarrow> error + meetings" where
  "for_each step acc [] = Inr acc"
| "for_each step acc (x # xs) =
     (case step acc x of Inl e \<Rightarrow> Inl e | Inr acc1 \<Rightarrow> for_each step acc1 xs)"

definition no_meetings :: meetings where
  "no_meetings = \<lparr>meeting_days = [], meeting_times = [], meeting_locations = []\<rparr>"

text \<open>The loop over \<^verbatim>\<open>course["_faculty_meeting_times"]\<close> and the loop over
  \<^verbatim>\<open>course["meetingsFaculty"]\<close>, each from empty lists.\<close>

definition fmt_meetings :: "jv \<Rightarrow> error + meetings" where
  "fmt_meetings fmt =
     (case py_iter fmt of Inl e \<Rightarrow> Inl e | Inr entries \<Rightarrow> for_each fmt_entry no_meetings entries)"

definition embedded_meetings :: "jv \<Rightarrow> error + meetings" where
  "embedded_meetings embedded =
     (case py_iter embedded of
        Inl e \<Rightarrow> Inl e
      | Inr entries \<Rightarrow> for_each meeting_entry no_meetings entries)"

text \<open>The \<^verbatim>\<open>if\<close> / \<^verbatim>\<open>elif\<close> that chooses the source of the meeting data.\<close>

definition course_meetings :: "(string \<times> jv) list \<Rightarrow> error + meetings" where
  "course_meetings course =
     (let fmt = dict_get course ''_faculty_meeting_times'' JNull in
      if truthy fmt then fmt_meetings fmt
      else
        (let embedded = dict_get course ''meetingsFaculty'' JNull in
         if truthy embedded then embedded_meetings embedded else Inr no_meetings))"

text \<open>
  The returned dictionary, in the order of its keys. \<^verbatim>\<open>course.get\<close> raises unless the
  course is a dictionary.
\<close>

definition flatten_course_data :: "jv \<Rightarrow> error + (string \<times> jv) list" where
  "flatten_course_data course =
     (case course of
        JObj c \<Rightarrow>
          (case faculty_names c of
             Inl e \<Rightarrow> Inl e
           | Inr names \<Rightarrow>
               (case course_meetings c of
                  Inl e \<Rightarrow> Inl e
                | Inr m \<Rightarrow>
                    (case py_join '', '' names of
                       Inl e \<Rightarrow> Inl e
                     | Inr faculty \<Rightarrow>
                         (case py_join '', '' (meeting_locations m) of
                            Inl e \<Rightarrow> Inl e
                          | Inr location \<Rightarrow>
                              Inr [(''CRN'', dict_get c ''courseReferenceNumber'' (JStr [])),
                                   (''Subject'', dict_get c ''subject'' (JStr [])),
                                   (''Course Number'', dict_get c ''courseNumber'' (JStr [])),
                                   (''Section'', dict_get c ''sequenceNumber'' (JStr [])),
                                   (''Title'', dict_get c ''courseTitle'' (JStr [])),
                                   (''Credit Hours'', dict_get c ''creditHours'' (JStr [])),
                                   (''Schedule Type'', dict_get c ''scheduleTypeDescription'' (JStr [])),
                                   (''Instructional Method'', dict_get c ''instructionalMethod'' (JStr [])),
                                   (''Faculty'', JStr faculty),
                                   (''Meeting Days'', JStr (join '', '' (meeting_days m))),
                                   (''Meeting Times'', JStr (join '', '' (meeting_times m))),
                                   (''Location'', JStr location),
                                   (''Campus'', dict_get c ''campusDescription'' (JStr [])),
                                   (''Enrollment Current'', dict_get c ''enrollment'' (JStr [])),
                                   (''Enrollment Max'', dict_get c ''maximumEnrollment'' (JStr [])),
                                   (''Seats Available'', dict_get c ''seatsAvailable'' (JStr [])),
                                   (''Waitlist Current'', dict_get c ''waitCount'' (JStr [])),
                                   (''Waitlist Max'', dict_get c ''waitCapacity'' (JStr []))]))))
      | _ \<Rightarrow> Inl AttributeError)"

section \<open>The vocabulary of the properties\<close>

text \<open>The request for page \<open>k\<close> (counted from 0), sent with session cookie \<open>c\<close>.\<close>

definition page_request :: "string \<Rightarrow> string \<Rightarrow> nat \<Rightarrow> request" where
  "page_request term c k = SearchResults term (page_size * int k) page_size c"

text \<open>
  A lookup that fails: the call raises, the status is rejected by \<^verbatim>\<open>raise_for_status\<close>,
  or the text of the response is empty.
\<close>

fun failed_lookup :: "http_result \<Rightarrow> bool" where
  "failed_lookup Failed = True"
| "failed_lookup (Response r) = (raise_for_status r \<noteq> None \<or> content r = NoText)"

text \<open>
  The shape of a course record, as far as the flattener depends on it. A text field is
  a string or \<^verbatim>\<open>None\<close>. A faculty entry is a dictionary whose \<^verbatim>\<open>displayName\<close>, if any, is
  text. A meeting entry is a dictionary whose \<^verbatim>\<open>meetingTime\<close>, if any, is a dictionary;
  in an entry of \<^verbatim>\<open>_faculty_meeting_times\<close> the building and its description, if any, are
  text. The faculty list and the two lists of meeting entries are lists of such entries,
  \<^verbatim>\<open>None\<close> or missing; every other field may be missing or hold any value.
\<close>

fun is_text :: "jv \<Rightarrow> bool" where
  "is_text (JStr s) = True"
| "is_text JNull = True"
| "is_text _ = False"

definition faculty_ok :: "jv \<Rightarrow> bool" where
  "faculty_ok faculty =
     (case faculty of JObj kv \<Rightarrow> is_text (dict_get kv ''displayName'' JNull) | _ \<Rightarrow> False)"

definition meeting_time_of :: "jv \<Rightarrow> (string \<times> jv) list option" where
  "meeting_time_of entry =
     (case entry of
        JObj kv \<Rightarrow> (case dict_get kv ''meetingTime'' (JObj []) of JObj mt \<Rightarrow> Some mt | _ \<Rightarrow> None)
      | _ \<Rightarrow> None)"

definition meeting_ok :: "jv \<Rightarrow> bool" where
  "meeting_ok entry = (case meeting_time_of entry of Some mt \<Rightarrow> True | None \<Rightarrow> False)"

definition fmt_ok :: "jv \<Rightarrow> bool" where
  "fmt_ok entry =
     (case meeting_time_of entry of
        Some mt \<Rightarrow> is_text (dict_get mt ''buildingDescription'' JNull) \<and>
                   is_text (dict_get mt ''building'' JNull)
      | None \<Rightarrow> False)"

fun entries_ok :: "(jv \<Rightarrow> bool) \<Rightarrow> jv \<Rightarrow> bool" where
  "entries_ok ok JNull = True"
| "entries_ok ok (JArr entries) = list_all ok entries"
| "entries_ok ok _ = False"

definition course_summary :: "jv \<Rightarrow> bool" where
  "course_summary course =
     (case course of
        JObj c \<Rightarrow>
          entries_ok faculty_ok (dict_get c ''faculty'' JNull) \<and>
          entries_ok fmt_ok (dict_get c ''_faculty_meeting_times'' JNull) \<and>
          entries_ok meeting_ok (dict_get c ''meetingsFaculty'' JNull)
      | _ \<Rightarrow> False)"

text \<open>The keys of the flat record, in order, and the fields that are passed through
  with the key of the course they come from.\<close>

definition field_names :: "string list" where
  "field_names =
     [''CRN'', ''Subject'', ''Course Number'', ''Section'', ''Title'', ''Credit Hours'',
      ''Schedule Type'', ''Instructional Method'', ''Faculty'', ''Meeting Days'',
      ''Meeting Times'', ''Location'', ''Campus'', ''Enrollment Current'', ''Enrollment Max'',
      ''Seats Available'', ''Waitlist Current'', ''Waitlist Max'']"

definition scalar_fields :: "(string \<times> string) list" where
  "scalar_fields =
     [(''CRN'', ''courseReferenceNumber''), (''Subject'', ''subject''),
      (''Course Number'', ''courseNumber''), (''Section'', ''sequenceNumber''),
      (''Title'', ''courseTitle''), (''Credit Hours'', ''creditHours''),
      (''Schedule Type'', ''scheduleTypeDescription''),
      (''Instructional Method'', ''instructionalMethod''),
      (''Campus'', ''campusDescription''), (''Enrollment Current'', ''enrollment''),
      (''Enrollment Max'', ''maximumEnrollment''), (''Seats Available'', ''seatsAvailable''),
      (''Waitlist Current'', ''waitCount''), (''Waitlist Max'', ''waitCapacity'')]"

text \<open>The keys that enrichment sets, and the flattened fields that depend on them.\<close>

definition attachment_keys :: "string set" where
  "attachment_keys = {''_detailed'', ''_faculty_meeting_times''}"

definition meeting_fields :: "string set" where
  "meeting_fields = {''Meeting Days'', ''Meeting Times'', ''Location''}"

text \<open>
  A course and its enriched version: both are dictionaries, and the entries of the
  enriched one under other keys than the attachments are those of the course, in the
  same order.
\<close>

definition same_summary :: "jv \<Rightarrow> jv \<Rightarrow> bool" where
  "same_summary course enriched =
     (case (course, enriched) of
        (JObj c, JObj c1) \<Rightarrow>
          filter (\<lambda>p. fst p \<notin> attachment_keys) c1 = filter (\<lambda>p. fst p \<notin> attachment_keys) c
      | _ \<Rightarrow> False)"

text \<open>
  A response with status 200 whose jar holds two \<^verbatim>\<open>JSESSIONID\<close> cookies (set for
  different paths), and a service that always gives it.
\<close>

definition conflict_response :: response where
  "conflict_response =
     \<lparr>status_code = 200,
      cookies = [(''JSESSIONID'', Some ''a''), (''JSESSIONID'', Some ''b'')],
      content = NoText\<rparr>"

definition conflict_server :: server where
  "conflict_server h rq = Response conflict_response"

text \<open>
  The counts that no number of courses reaches: the floats \<^verbatim>\<open>inf\<close> and \<^verbatim>\<open>nan\<close>, which
  \<^verbatim>\<open>json.loads\<close> gives for \<^verbatim>\<open>1e999\<close>, \<^verbatim>\<open>Infinity\<close> and \<^verbatim>\<open>NaN\<close>.
\<close>

fun inf_or_nan :: "jv \<Rightarrow> bool" where
  "inf_or_nan (JFloat PosInf) = True"
| "inf_or_nan (JFloat NaN) = True"
| "inf_or_nan _ = False"

text \<open>
  A service that answers every request with status 200, a session cookie, and a page of
  one record under the count \<^verbatim>\<open>1e999\<close>.
\<close>

definition endless_response :: response where
  "endless_response =
     \<lparr>status_code = 200,
      cookies = [(''JSESSIONID'', Some ''abc'')],
      content = Json (JObj [(''totalCount'', JFloat PosInf), (''data'', JArr [JObj []])])\<rparr>"

definition endless_server :: server where
  "endless_server h rq = Response endless_response"

section \<open>The search session\<close>

lemma find_no_duplicates_absent:
  "name \<notin> fst ` set jar \<Longrightarrow> find_no_duplicates name t jar = Inr t"
  by (induction jar arbitrary: t) auto

lemma find_no_duplicates_value:
  "find_no_duplicates name t jar = Inr (Some v) \<Longrightarrow> t = Some v \<or> (name, Some v) \<in> set jar"
proof (induction jar arbitrary: t)
  case Nil
  then show ?case by simp
next
  case (Cons cookie jar)
  obtain n v0 where cookie: "cookie = (n, v0)"
    by (cases cookie)
  show ?case
  proof (cases "n = name")
    case True
    with Cons.prems cookie have t: "t = None"
      and rest: "find_no_duplicates name v0 jar = Inr (Some v)"
      by (auto split: if_splits)
    from Cons.IH [OF rest] True cookie show ?thesis
      by auto
  next
    case False
    with Cons.prems cookie have "find_no_duplicates name t jar = Inr (Some v)"
      by simp
    from Cons.IH [OF this] show ?thesis
      by auto
  qed
qed

lemma find_no_duplicates_conflict:
  "find_no_duplicates name t jar = Inl e \<Longrightarrow>
     e = CookieConflictError \<and>
     (if t = None then 2 else 1) \<le> length (filter (\<lambda>c. fst c = name) jar)"
  by (induction jar arbitrary: t) (fastforce split: if_splits)+

lemma cookies_get_cases:
  "(name \<notin> fst ` set jar \<longrightarrow> cookies_get jar name = Inr None) \<and>
   (cookies_get jar name = Inr (Some v) \<longrightarrow> (name, Some v) \<in> set jar \<and> v \<noteq> []) \<and>
   (cookies_get jar name = Inl e \<longrightarrow>
      e = CookieConflictError \<and> 2 \<le> length (filter (\<lambda>c. fst c = name) jar))"
proof (intro conjI impI)
  assume "name \<notin> fst ` set jar"
  then show "cookies_get jar name = Inr None"
    by (simp add: cookies_get_def find_no_duplicates_absent)
next
  assume "cookies_get jar name = Inr (Some v)"
  then have "find_no_duplicates name None jar = Inr (Some v)" and "v \<noteq> []"
    by (auto simp: cookies_get_def split: sum.splits option.splits if_splits)
  with find_no_duplicates_value [of name None jar v]
  show "(name, Some v) \<in> set jar" and "v \<noteq> []"
    by simp_all
next
  assume "cookies_get jar name = Inl e"
  then have "find_no_duplicates name None jar = Inl e"
    by (auto simp: cookies_get_def split: sum.splits option.splits if_splits)
  from find_no_duplicates_conflict [OF this]
  show "e = CookieConflictError" and "2 \<le> length (filter (\<lambda>c. fst c = name) jar)"
    by simp_all
qed

text \<open>
  C7 (as amended). \<^const>\<open>initialize_search_session\<close> sends its one request (there is no
  retry) and fails exactly when the call raises (transport failure), the status is one
  that \<^verbatim>\<open>raise_for_status\<close> rejects (400 to 599), the cookie jar of the response gives no
  value for \<^verbatim>\<open>JSESSIONID\<close>, or reading the jar raises \<^verbatim>\<open>CookieConflictError\<close>. The jar
  gives no value when it has no such cookie (and also when the cookie it finds has no
  value or the empty one); the conflict needs at least two \<^verbatim>\<open>JSESSIONID\<close> cookies. A
  failure leaves \<^verbatim>\<open>session_cookie\<close> as it was and is the result of the whole
  \<^const>\<open>get_course_catalog\<close>, which sends nothing more. On success the result is the
  non-empty value of a \<^verbatim>\<open>JSESSIONID\<close> cookie of the response, it is stored in
  \<^verbatim>\<open>session_cookie\<close>, and the next page request carries it.
\<close>

theorem session_init_fails_iff:
  assumes "initialize_search_session srv term cl = (res, cl1)"
  shows "sent cl1 = sent cl @ [TermSearch term] \<and>
    (isl res \<longleftrightarrow>
       srv (sent cl) (TermSearch term) = Failed \<or>
       (\<exists>r. srv (sent cl) (TermSearch term) = Response r \<and>
            (400 \<le> status_code r \<and> status_code r < 600 \<or>
             cookies_get (cookies r) ''JSESSIONID'' = Inr None \<or>
             cookies_get (cookies r) ''JSESSIONID'' = Inl CookieConflictError))) \<and>
    (\<forall>jar. (''JSESSIONID'' \<notin> fst ` set jar \<longrightarrow> cookies_get jar ''JSESSIONID'' = Inr None) \<and>
       (cookies_get jar ''JSESSIONID'' = Inl CookieConflictError \<longrightarrow>
          2 \<le> length (filter (\<lambda>c. fst c = ''JSESSIONID'') jar))) \<and>
    (\<forall>e. res = Inl e \<longrightarrow>
       session_cookie cl1 = session_cookie cl \<and>
       get_course_catalog srv term detailed cl = Some (Inl e, cl1)) \<and>
    (\<forall>j. res = Inr j \<longrightarrow>
       (\<exists>r. srv (sent cl) (TermSearch term) = Response r \<and>
            (''JSESSIONID'', Some j) \<in> set (cookies r)) \<and>
       j \<noteq> [] \<and> session_cookie cl1 = Some j \<and>
       sent (snd (fetch_catalog_page srv term off ps cl1))
         = sent cl1 @ [SearchResults term off ps j])"
proof -
  have jar: "\<forall>jar. (''JSESSIONID'' \<notin> fst ` set jar \<longrightarrow> cookies_get jar ''JSESSIONID'' = Inr None) \<and>
       (cookies_get jar ''JSESSIONID'' = Inl CookieConflictError \<longrightarrow>
          2 \<le> length (filter (\<lambda>c. fst c = ''JSESSIONID'') jar))"
    using cookies_get_cases [of "''JSESSIONID''"] by blast
  show ?thesis
  proof (cases "srv (sent cl) (TermSearch term)")
    case Failed
    with assms jar show ?thesis
      by (auto simp: initialize_search_session_def send_def get_course_catalog_def)
  next
    case (Response r)
    show ?thesis
    proof (cases "raise_for_status r")
      case (Some e)
      with Response assms jar show ?thesis
        by (auto simp: initialize_search_session_def send_def get_course_catalog_def
            raise_for_status_def split: if_splits)
    next
      case None
      then have ok: "\<not> (400 \<le> status_code r \<and> status_code r < 600)"
        by (auto simp: raise_for_status_def split: if_splits)
      show ?thesis
      proof (cases "cookies_get (cookies r) ''JSESSIONID''")
        case (Inl e)
        with cookies_get_cases [of "''JSESSIONID''" "cookies r" _ e]
        have e: "e = CookieConflictError" by simp
        from Inl e None Response assms ok jar show ?thesis
          by (auto simp: initialize_search_session_def send_def get_course_catalog_def)
      next
        case (Inr found)
        show ?thesis
        proof (cases found)
          case no: None
          with Inr None Response assms ok jar show ?thesis
            by (auto simp: initialize_search_session_def send_def get_course_catalog_def)
        next
          case (Some j)
          with Inr cookies_get_cases [of "''JSESSIONID''" "cookies r" j]
          have j: "(''JSESSIONID'', Some j) \<in> set (cookies r)" "j \<noteq> []"
            by simp_all
          from Some Inr j None Response assms ok jar show ?thesis
            by (auto simp: initialize_search_session_def send_def get_course_catalog_def
                fetch_catalog_page_def
                split: http_result.splits prod.splits option.splits sum.splits)
        qed
      qed
    qed
  qed
qed

theorem session_init_fails_iff_witness:
  "session_cookie \<lparr>session_cookie = Some ''abc'', sent = [TermSearch ''202510'']\<rparr> = Some ''abc'' \<and>
   sent (snd (fetch_catalog_page
      (\<lambda>h rq. Response \<lparr>status_code = 200, cookies = [(''JSESSIONID'', Some ''abc'')], content = NoText\<rparr>)
      ''202510'' 0 500 \<lparr>session_cookie = Some ''abc'', sent = [TermSearch ''202510'']\<rparr>))
     = [TermSearch ''202510'', SearchResults ''202510'' 0 500 ''abc''] \<and>
   get_course_catalog
      (\<lambda>h rq. Response \<lparr>status_code = 500, cookies = [(''JSESSIONID'', Some ''abc'')], content = NoText\<rparr>)
      ''202510'' True \<lparr>session_cookie = None, sent = []\<rparr>
     = Some (Inl (SessionInitFailed (HTTPError 500)),
        \<lparr>session_cookie = None, sent = [TermSearch ''202510'']\<rparr>) \<and>
   get_course_catalog
      (\<lambda>h rq. Response \<lparr>status_code = 200, cookies = [(''OTHER'', Some ''abc'')], content = NoText\<rparr>)
      ''202510'' True \<lparr>session_cookie = None, sent = []\<rparr>
     = Some (Inl SessionCookieMissing, \<lparr>session_cookie = None, sent = [TermSearch ''202510'']\<rparr>) \<and>
   get_course_catalog conflict_server ''202510'' True \<lparr>session_cookie = None, sent = []\<rparr>
     = Some (Inl CookieConflictError, \<lparr>session_cookie = None, sent = [TermSearch ''202510'']\<rparr>)"
proof -
  let ?ok = "\<lambda>(h :: request list) (rq :: request).
      Response \<lparr>status_code = 200, cookies = [(''JSESSIONID'', Some ''abc'')], content = NoText\<rparr>"
  let ?bad = "\<lambda>(h :: request list) (rq :: request).
      Response \<lparr>status_code = 500, cookies = [(''JSESSIONID'', Some ''abc'')], content = NoText\<rparr>"
  let ?none = "\<lambda>(h :: request list) (rq :: request).
      Response \<lparr>status_code = 200, cookies = [(''OTHER'', Some ''abc'')], content = NoText\<rparr>"
  let ?cl = "\<lparr>session_cookie = None, sent = []\<rparr>"
  have ok: "initialize_search_session ?ok ''202510'' ?cl
      = (Inr ''abc'', \<lparr>session_cookie = Some ''abc'', sent = [TermSearch ''202510'']\<rparr>)"
    by (simp add: initialize_search_session_def send_def raise_for_status_def cookies_get_def)
  have bad: "initialize_search_session ?bad ''202510'' ?cl
      = (Inl (SessionInitFailed (HTTPError 500)),
         \<lparr>session_cookie = None, sent = [TermSearch ''202510'']\<rparr>)"
    by (simp add: initialize_search_session_def send_def raise_for_status_def)
  have none: "initialize_search_session ?none ''202510'' ?cl
      = (Inl SessionCookieMissing, \<lparr>session_cookie = None, sent = [TermSearch ''202510'']\<rparr>)"
    by (simp add: initialize_search_session_def send_def raise_for_status_def cookies_get_def)
  have conflict: "initialize_search_session conflict_server ''202510'' ?cl
      = (Inl CookieConflictError, \<lparr>session_cookie = None, sent = [TermSearch ''202510'']\<rparr>)"
    by (simp add: initialize_search_session_def send_def raise_for_status_def cookies_get_def
        conflict_server_def conflict_response_def)
  from session_init_fails_iff [OF ok, where off = 0 and ps = 500]
    session_init_fails_iff [OF bad, where detailed = True]
    session_init_fails_iff [OF none, where detailed = True]
    session_init_fails_iff [OF conflict, where detailed = True]
  show ?thesis by simp
qed

text \<open>
  A response with status 200 that carries two \<^verbatim>\<open>JSESSIONID\<close> cookies: the call fails,
  with an error that is none of the three kinds.
\<close>

theorem session_init_counterexample:
  "conflict_server [] (TermSearch ''202510'') = Response conflict_response \<and>
   status_code conflict_response = 200 \<and>
   (''JSESSIONID'', Some ''a'') \<in> set (cookies conflict_response) \<and>
   initialize_search_session conflict_server ''202510'' \<lparr>session_cookie = None, sent = []\<rparr>
     = (Inl CookieConflictError, \<lparr>session_cookie = None, sent = [TermSearch ''202510'']\<rparr>)"
  by (simp add: initialize_search_session_def send_def raise_for_status_def cookies_get_def
      conflict_server_def conflict_response_def)

section \<open>The catalog fetch loop\<close>

lemma py_iter_truthy:
  assumes "py_iter v = Inr cs" and "truthy v"
  shows "cs \<noteq> []"
proof (cases v)
  case (JObj kvs)
  with assms show ?thesis by (cases kvs) (auto simp: dict_keys_def)
qed (use assms in auto)

lemma int_ge_float_bound:
  "\<exists>B. \<forall>n\<ge>0. \<not> int_ge_float n (Finite m e t) \<longrightarrow> n < B"
proof (cases "0 \<le> e")
  case True
  then show ?thesis by (intro exI [of _ "m * 2 ^ nat e"]) auto
next
  case False
  have "n < m" if "0 \<le> n" and "\<not> m \<le> n * 2 ^ nat (- e)" for n :: int
  proof -
    have "n * 1 \<le> n * 2 ^ nat (- e)"
      using that(1) by (intro mult_left_mono) auto
    with that(2) show ?thesis by simp
  qed
  with False show ?thesis by (intro exI [of _ m]) auto
qed

lemma py_ge_bound:
  assumes "\<not> inf_or_nan v"
  shows "\<exists>B. \<forall>n\<ge>0. py_ge n v = Inr False \<longrightarrow> n < B"
proof (cases v)
  case (JInt m)
  then show ?thesis by (intro exI [of _ m]) auto
next
  case (JBool b)
  then show ?thesis by (intro exI [of _ 1]) auto
next
  case (JFloat f)
  with assms int_ge_float_bound show ?thesis
    by (cases f) auto
qed auto

lemma loop_body_continue:
  assumes "loop_body srv term s cl = (Continue s1, cl1)"
  shows "\<exists>cs. cs \<noteq> [] \<and> all_courses s1 = all_courses s @ cs \<and>
     py_ge (int (length (all_courses s1))) (total_count s1) = Inr False \<and>
     total_count s1 \<noteq> JNull \<and>
     (total_count s \<noteq> JNull \<longrightarrow> total_count s1 = total_count s)"
proof -
  from assms obtain data courses cs where
    tc: "(if total_count s = JNull then py_get data ''totalCount'' (JInt 0)
          else Inr (total_count s)) = Inr (total_count s1)"
    and it: "py_iter courses = Inr cs"
    and ge: "py_ge (int (length (all_courses s @ cs))) (total_count s1) = Inr False"
    and tr: "truthy courses"
    and ac: "all_courses s1 = all_courses s @ cs"
    by (auto simp: loop_body_def split: prod.splits sum.splits if_splits)
  from it tr have "cs \<noteq> []" by (rule py_iter_truthy)
  moreover from ge have "total_count s1 \<noteq> JNull" by auto
  moreover from tc have "total_count s \<noteq> JNull \<longrightarrow> total_count s1 = total_count s" by auto
  ultimately show ?thesis using ge ac by auto
qed

lemma loop_returns:
  assumes "total_count s \<noteq> JNull" and "\<not> inf_or_nan (total_count s)"
  shows "\<exists>r. fetch_loop srv term s cl = Some r"
proof -
  from py_ge_bound [OF assms(2)] obtain B where
    B: "\<And>n. 0 \<le> n \<Longrightarrow> py_ge n (total_count s) = Inr False \<Longrightarrow> n < B"
    by blast
  have "\<exists>r. fetch_loop srv term s' cl' = Some r"
    if "total_count s' = total_count s" for s' cl'
    using that
  proof (induction "nat (B - int (length (all_courses s')))" arbitrary: s' cl' rule: less_induct)
    case less
    obtain out cl1 where body: "loop_body srv term s' cl' = (out, cl1)"
      by (cases "loop_body srv term s' cl'")
    show ?case
    proof (cases out)
      case (Raise e)
      with body show ?thesis by (subst fetch_loop.simps) simp
    next
      case (Break courses)
      with body show ?thesis by (subst fetch_loop.simps) simp
    next
      case (Continue s1)
      with body have "loop_body srv term s' cl' = (Continue s1, cl1)" by simp
      from loop_body_continue [OF this] less.prems assms(1) obtain cs where
        cs: "cs \<noteq> []" "all_courses s1 = all_courses s' @ cs"
        and ge: "py_ge (int (length (all_courses s1))) (total_count s) = Inr False"
        and tc: "total_count s1 = total_count s"
        by auto
      from B [OF _ ge] have "int (length (all_courses s1)) < B" by simp
      with cs have "nat (B - int (length (all_courses s1))) < nat (B - int (length (all_courses s')))"
        by (cases cs) auto
      from less.hyps [OF this tc] obtain r where "fetch_loop srv term s1 cl1 = Some r" ..
      with body Continue show ?thesis by (subst fetch_loop.simps) simp
    qed
  qed
  then show ?thesis by simp
qed

lemma loop_body_page:
  assumes "fetch_catalog_page srv term (offset s) page_size cl = (Inr data, cl1)"
    and "py_get data ''data'' (JArr []) = Inr (JArr cs)"
    and "(if total_count s = JNull then py_get data ''totalCount'' (JInt 0)
          else Inr (total_count s)) = Inr v"
    and "py_ge (int (length (all_courses s @ cs))) v = Inr reached"
  shows "loop_body srv term s cl =
     (if reached \<or> cs = []
      then Break (all_courses s @ cs)
      else Continue \<lparr>offset = offset s + page_size, total_count = v,
                      all_courses = all_courses s @ cs\<rparr>, cl1)"
  using assms by (simp add: loop_body_def)

text \<open>
  C1 (as amended). Whatever the service answers (the answer to a request may depend on
  all earlier requests), the loop returns, provided that the count it holds once the
  first run of its body has gone on (the \<^verbatim>\<open>totalCount\<close> captured from the first page,
  when the loop starts with \<^verbatim>\<open>total_count = None\<close>) is not the float \<^verbatim>\<open>inf\<close> or \<^verbatim>\<open>nan\<close>.
  After a page with records \<open>cs\<close>, under the count \<open>v\<close> that the first page set, the
  loop stops with the accumulated courses as soon as their number is at least \<open>v\<close> or
  the page had no record; otherwise it goes on with the offset raised by the page size.
\<close>

theorem catalog_loop_terminates:
  "((\<forall>s1 cl1. loop_body srv term s cl = (Continue s1, cl1) \<longrightarrow> \<not> inf_or_nan (total_count s1)) \<longrightarrow>
      (\<exists>r. fetch_loop srv term s cl = Some r)) \<and>
   (\<forall>data cl1 cs v reached.
      fetch_catalog_page srv term (offset s) page_size cl = (Inr data, cl1) \<longrightarrow>
      py_get data ''data'' (JArr []) = Inr (JArr cs) \<longrightarrow>
      (if total_count s = JNull then py_get data ''totalCount'' (JInt 0)
       else Inr (total_count s)) = Inr v \<longrightarrow>
      py_ge (int (length (all_courses s @ cs))) v = Inr reached \<longrightarrow>
      fetch_loop srv term s cl =
        (if reached \<or> cs = []
         then Some (Inr (all_courses s @ cs), cl1)
         else fetch_loop srv term
                \<lparr>offset = offset s + page_size, total_count = v,
                 all_courses = all_courses s @ cs\<rparr> cl1))"
proof (intro conjI allI impI)
  assume bounded: "\<forall>s1 cl1. loop_body srv term s cl = (Continue s1, cl1) \<longrightarrow>
      \<not> inf_or_nan (total_count s1)"
  obtain out cl1 where run: "loop_body srv term s cl = (out, cl1)"
    by (cases "loop_body srv term s cl")
  show "\<exists>r. fetch_loop srv term s cl = Some r"
  proof (cases out)
    case (Raise e)
    with run show ?thesis by (subst fetch_loop.simps) simp
  next
    case (Break courses)
    with run show ?thesis by (subst fetch_loop.simps) simp
  next
    case (Continue s1)
    with run have continue: "loop_body srv term s cl = (Continue s1, cl1)" by simp
    with bounded have "\<not> inf_or_nan (total_count s1)" by blast
    moreover from loop_body_continue [OF continue] have "total_count s1 \<noteq> JNull" by blast
    ultimately obtain r where "fetch_loop srv term s1 cl1 = Some r"
      using loop_returns by blast
    with continue show ?thesis by (subst fetch_loop.simps) simp
  qed
next
  fix data cl1 cs v reached
  assume "fetch_catalog_page srv term (offset s) page_size cl = (Inr data, cl1)"
    and "py_get data ''data'' (JArr []) = Inr (JArr cs)"
    and "(if total_count s = JNull then py_get data ''totalCount'' (JInt 0)
          else Inr (total_count s)) = Inr v"
    and "py_ge (int (length (all_courses s @ cs))) v = Inr reached"
  then have "loop_body srv term s cl =
     (if reached \<or> cs = []
      then Break (all_courses s @ cs)
      else Continue \<lparr>offset = offset s + page_size, total_count = v,
                      all_courses = all_courses s @ cs\<rparr>, cl1)"
    by (rule loop_body_page)
  then show "fetch_loop srv term s cl =
        (if reached \<or> cs = []
         then Some (Inr (all_courses s @ cs), cl1)
         else fetch_loop srv term
                \<lparr>offset = offset s + page_size, total_count = v,
                 all_courses = all_courses s @ cs\<rparr> cl1)"
    by (subst fetch_loop.simps) simp
qed

theorem catalog_loop_terminates_witness:
  "(\<exists>r. fetch_loop (\<lambda>h rq. Response \<lparr>status_code = 200, cookies = [],
              content = Json (JObj [(''totalCount'', JFloat (Finite 3 (- 1) ''1.5'')),
                                    (''data'', JArr [JObj []])])\<rparr>)
     ''202510'' \<lparr>offset = 0, total_count = JNull, all_courses = []\<rparr>
     \<lparr>session_cookie = Some ''abc'', sent = []\<rparr> = Some r) \<and>
   fetch_loop (\<lambda>h rq. Response \<lparr>status_code = 200, cookies = [],
              content = Json (JObj [(''totalCount'', JFloat (Finite 3 (- 1) ''1.5'')),
                                    (''data'', JArr [JObj []])])\<rparr>)
     ''202510'' \<lparr>offset = 0, total_count = JNull, all_courses = []\<rparr>
     \<lparr>session_cookie = Some ''abc'', sent = []\<rparr>
   = Some (Inr [JObj [], JObj []],
      \<lparr>session_cookie = Some ''abc'',
       sent = [SearchResults ''202510'' 0 500 ''abc'', SearchResults ''202510'' 500 500 ''abc'']\<rparr>)"
proof -
  let ?count = "JFloat (Finite 3 (- 1) ''1.5'')"
  let ?srv = "\<lambda>(h :: request list) (rq :: request). Response \<lparr>status_code = 200, cookies = [],
              content = Json (JObj [(''totalCount'', ?count), (''data'', JArr [JObj []])])\<rparr>"
  let ?data = "JObj [(''totalCount'', ?count), (''data'', JArr [JObj []])]"
  let ?s0 = "\<lparr>offset = 0, total_count = JNull, all_courses = []\<rparr>"
  let ?s1 = "\<lparr>offset = 0 + page_size, total_count = ?count, all_courses = [] @ [JObj []]\<rparr>"
  let ?c0 = "\<lparr>session_cookie = Some ''abc'', sent = []\<rparr>"
  let ?c1 = "\<lparr>session_cookie = Some ''abc'', sent = [SearchResults ''202510'' 0 500 ''abc'']\<rparr>"
  let ?c2 = "\<lparr>session_cookie = Some ''abc'',
       sent = [SearchResults ''202510'' 0 500 ''abc'', SearchResults ''202510'' 500 500 ''abc'']\<rparr>"
  have p0: "fetch_catalog_page ?srv ''202510'' (offset ?s0) page_size ?c0 = (Inr ?data, ?c1)"
    by (simp add: fetch_catalog_page_def send_def raise_for_status_def json_def page_size_def)
  have p1: "fetch_catalog_page ?srv ''202510'' (offset ?s1) page_size ?c1 = (Inr ?data, ?c2)"
    by (simp add: fetch_catalog_page_def send_def raise_for_status_def json_def page_size_def)
  have d: "py_get ?data ''data'' (JArr []) = Inr (JArr [JObj []])"
    by (simp add: dict_get_def)
  have t0: "(if total_count ?s0 = JNull then py_get ?data ''totalCount'' (JInt 0)
             else Inr (total_count ?s0)) = Inr ?count"
    by (simp add: dict_get_def)
  have t1: "(if total_count ?s1 = JNull then py_get ?data ''totalCount'' (JInt 0)
             else Inr (total_count ?s1)) = Inr ?count"
    by simp
  have g0: "py_ge (int (length (all_courses ?s0 @ [JObj []]))) ?count = Inr False"
    by simp
  have g1: "py_ge (int (length (all_courses ?s1 @ [JObj []]))) ?count = Inr True"
    by simp
  have body: "loop_body ?srv ''202510'' ?s0 ?c0 = (Continue ?s1, ?c1)"
    using loop_body_page [OF p0 d t0 g0] by simp
  have "fetch_loop ?srv ''202510'' ?s0 ?c0 = fetch_loop ?srv ''202510'' ?s1 ?c1"
    using catalog_loop_terminates [of ?srv "''202510''" ?s0 ?c0, THEN conjunct2, rule_format,
        OF p0 d t0 g0]
    by simp
  also have "\<dots> = Some (Inr [JObj [], JObj []], ?c2)"
    using catalog_loop_terminates [of ?srv "''202510''" ?s1 ?c1, THEN conjunct2, rule_format,
        OF p1 d t1 g1]
    by simp
  finally have result: "fetch_loop ?srv ''202510'' ?s0 ?c0 = Some (Inr [JObj [], JObj []], ?c2)" .
  have "\<exists>r. fetch_loop ?srv ''202510'' ?s0 ?c0 = Some r"
    using catalog_loop_terminates [of ?srv "''202510''" ?s0 ?c0, THEN conjunct1] body
    by simp
  with result show ?thesis by simp
qed

lemma endless_loop:
  assumes "fetch_loop srv term s cl = Some r"
  shows "\<not> (srv = endless_server \<and> session_cookie cl = Some ''abc'' \<and>
            (total_count s = JNull \<or> total_count s = JFloat PosInf))"
proof (rule fetch_loop.raw_induct [where P = "\<lambda>srv term s cl r.
    \<not> (srv = endless_server \<and> session_cookie cl = Some ''abc'' \<and>
       (total_count s = JNull \<or> total_count s = JFloat PosInf))", OF _ assms])
  fix f :: "server \<Rightarrow> string \<Rightarrow> loop_state \<Rightarrow> client \<Rightarrow> ((error + jv list) \<times> client) option"
    and srv "term" s cl r
  assume IH: "\<And>srv term s cl r. f srv term s cl = Some r \<Longrightarrow>
      \<not> (srv = endless_server \<and> session_cookie cl = Some ''abc'' \<and>
         (total_count s = JNull \<or> total_count s = JFloat PosInf))"
    and run: "(case loop_body srv term s cl of
          (Raise e, cl1) \<Rightarrow> Some (Inl e, cl1)
        | (Break courses, cl1) \<Rightarrow> Some (Inr courses, cl1)
        | (Continue s1, cl1) \<Rightarrow> f srv term s1 cl1) = Some r"
  show "\<not> (srv = endless_server \<and> session_cookie cl = Some ''abc'' \<and>
            (total_count s = JNull \<or> total_count s = JFloat PosInf))"
  proof
    assume inv: "srv = endless_server \<and> session_cookie cl = Some ''abc'' \<and>
            (total_count s = JNull \<or> total_count s = JFloat PosInf)"
    let ?s1 = "\<lparr>offset = offset s + page_size, total_count = JFloat PosInf,
                all_courses = all_courses s @ [JObj []]\<rparr>"
    let ?cl1 = "cl\<lparr>sent := sent cl @ [SearchResults term (offset s) page_size ''abc'']\<rparr>"
    from inv have "loop_body srv term s cl = (Continue ?s1, ?cl1)"
      by (auto simp: loop_body_def fetch_catalog_page_def send_def raise_for_status_def json_def
          endless_server_def endless_response_def dict_get_def)
    with run have "f srv term ?s1 ?cl1 = Some r"
      by simp
    from IH [OF this] inv show False
      by simp
  qed
qed

text \<open>
  Under the count \<^verbatim>\<open>1e999\<close> and pages that are never empty the loop does not return, and
  neither does \<^const>\<open>get_course_catalog\<close>.
\<close>

theorem catalog_loop_counterexample:
  "fetch_loop endless_server ''202510'' \<lparr>offset = 0, total_count = JNull, all_courses = []\<rparr>
     \<lparr>session_cookie = Some ''abc'', sent = []\<rparr> = None \<and>
   get_course_catalog endless_server ''202510'' False \<lparr>session_cookie = None, sent = []\<rparr> = None"
proof -
  have never: "fetch_loop endless_server ''202510''
      \<lparr>offset = 0, total_count = JNull, all_courses = []\<rparr>
      \<lparr>session_cookie = Some ''abc'', sent = h\<rparr> = None" for h
  proof (cases "fetch_loop endless_server ''202510''
      \<lparr>offset = 0, total_count = JNull, all_courses = []\<rparr>
      \<lparr>session_cookie = Some ''abc'', sent = h\<rparr>")
    case (Some r)
    from endless_loop [OF this] show ?thesis by simp
  qed
  have "initialize_search_session endless_server ''202510'' \<lparr>session_cookie = None, sent = []\<rparr>
      = (Inr ''abc'', \<lparr>session_cookie = Some ''abc'', sent = [TermSearch ''202510'']\<rparr>)"
    by (simp add: initialize_search_session_def send_def raise_for_status_def cookies_get_def
        endless_server_def endless_response_def)
  with never show ?thesis
    by (simp add: get_course_catalog_def)
qed

lemma fetch_catalog_page_ok:
  assumes "session_cookie cl = Some c" and "c \<noteq> []"
    and "srv (sent cl) (SearchResults term off ps c) = Response r"
    and "raise_for_status r = None" and "content r = Json data"
  shows "fetch_catalog_page srv term off ps cl
     = (Inr data, cl\<lparr>sent := sent cl @ [SearchResults term off ps c]\<rparr>)"
  using assms by (simp add: fetch_catalog_page_def send_def json_def)

text \<open>
  C2. Let the first page report a positive \<open>totalCount = total\<close>, let
  \<open>n = \<lceil>total / 500\<rceil>\<close>, and let the service answer the request for each of the pages
  \<open>0, \<dots>, n - 1\<close> with a success status and a JSON object whose \<open>data\<close> holds 500
  records, the last page holding the remaining \<open>total - 500 (n - 1)\<close>. Then the loop
  returns a sequence of exactly \<open>total\<close> courses and has sent exactly the \<open>n\<close> page
  requests for the offsets \<open>0, 500, \<dots>, 500 (n - 1)\<close>. (This covers every positive
  \<open>total\<close>, a multiple of 500 or not.)
\<close>

theorem paged_fetch_count:
  fixes total :: int and n :: nat and records :: "nat \<Rightarrow> jv list"
  assumes cookie: "session_cookie cl = Some c" "c \<noteq> []"
    and pos: "0 < total"
    and n: "n = nat ((total + page_size - 1) div page_size)"
    and resp: "\<And>k. k < n \<Longrightarrow> \<exists>r obj.
          srv (sent cl @ map (page_request term c) [0..<k]) (page_request term c k) = Response r \<and>
          raise_for_status r = None \<and> content r = Json (JObj obj) \<and>
          dict_get obj ''data'' (JArr []) = JArr (records k) \<and>
          (k = 0 \<longrightarrow> dict_get obj ''totalCount'' (JInt 0) = JInt total)"
    and full: "\<And>k. Suc k < n \<Longrightarrow> int (length (records k)) = page_size"
    and rest: "int (length (records (n - 1))) = total - page_size * int (n - 1)"
  shows "\<exists>courses.
     fetch_loop srv term \<lparr>offset = 0, total_count = JNull, all_courses = []\<rparr> cl
       = Some (Inr courses, cl\<lparr>sent := sent cl @ map (page_request term c) [0..<n]\<rparr>) \<and>
     int (length courses) = total"
proof -
  let ?acc = "\<lambda>j. concat (map records [0..<j])"
  let ?s = "\<lambda>j. \<lparr>offset = page_size * int j,
                  total_count = (if j = 0 then JNull else JInt total),
                  all_courses = ?acc j\<rparr>"
  let ?cl = "\<lambda>j. cl\<lparr>sent := sent cl @ map (page_request term c) [0..<j]\<rparr>"
  have n1: "0 < n" and lo: "page_size * int (n - 1) < total"
    using pos n by (auto simp: page_size_def)
  have len: "int (length (?acc j)) = page_size * int j" if "j < n" for j
    using that
  proof (induction j)
    case 0
    show ?case by simp
  next
    case (Suc j)
    then show ?case using full [of j] by (simp add: algebra_simps)
  qed
  have step: "loop_body srv term (?s j) (?cl j) =
      (if Suc j = n then Break (?acc n) else Continue (?s (Suc j)), ?cl (Suc j))"
    if j: "j < n" for j
  proof -
    from resp [OF j] obtain r obj where
      r: "srv (sent cl @ map (page_request term c) [0..<j]) (page_request term c j) = Response r"
        "raise_for_status r = None" "content r = Json (JObj obj)"
      and d: "dict_get obj ''data'' (JArr []) = JArr (records j)"
      and t: "j = 0 \<longrightarrow> dict_get obj ''totalCount'' (JInt 0) = JInt total"
      by blast
    have page: "fetch_catalog_page srv term (offset (?s j)) page_size (?cl j)
        = (Inr (JObj obj), ?cl (Suc j))"
      using fetch_catalog_page_ok [of "?cl j" c srv "term" "page_size * int j" page_size r "JObj obj"]
        cookie r
      by (simp add: page_request_def)
    have data: "py_get (JObj obj) ''data'' (JArr []) = Inr (JArr (records j))"
      using d by simp
    have tc: "(if total_count (?s j) = JNull then py_get (JObj obj) ''totalCount'' (JInt 0)
               else Inr (total_count (?s j))) = Inr (JInt total)"
      using t by simp
    have ge: "py_ge (int (length (all_courses (?s j) @ records j))) (JInt total)
        = Inr (total \<le> int (length (all_courses (?s j) @ records j)))"
      by simp
    have body: "loop_body srv term (?s j) (?cl j) =
       (if total \<le> int (length (?acc j @ records j)) \<or> records j = []
        then Break (?acc j @ records j)
        else Continue \<lparr>offset = offset (?s j) + page_size, total_count = JInt total,
                        all_courses = ?acc j @ records j\<rparr>, ?cl (Suc j))"
      using loop_body_page [OF page data tc ge] by simp
    show ?thesis
    proof (cases "Suc j = n")
      case True
      then have nj: "n - 1 = j" by auto
      have "int (length (?acc j @ records j)) = total"
        using len [OF j] rest unfolding nj by simp
      moreover have "?acc j @ records j = ?acc n"
        using True by auto
      ultimately show ?thesis
        using body True by simp
    next
      case False
      with j have sj: "Suc j < n" by simp
      then have "int (length (?acc j @ records j)) = page_size * int (Suc j)"
        using len [OF j] full [OF sj] by (simp add: algebra_simps)
      moreover have "page_size * int (Suc j) \<le> page_size * int (n - 1)"
        using sj by (simp add: page_size_def)
      ultimately have lt: "\<not> total \<le> int (length (?acc j @ records j))"
        using lo by simp
      have ne: "records j \<noteq> []"
        using full [OF sj] by (auto simp: page_size_def)
      show ?thesis
        using body lt ne False by (simp add: algebra_simps)
    qed
  qed
  have run: "fetch_loop srv term (?s j) (?cl j) = Some (Inr (?acc n), ?cl n)" if "j < n" for j
    using that
  proof (induction "n - Suc j" arbitrary: j)
    case 0
    then have "Suc j = n" by simp
    then show ?case
      using step [of j] by (subst fetch_loop.simps) simp
  next
    case (Suc d)
    then have sj: "Suc j < n" and d: "d = n - Suc (Suc j)" by simp_all
    from Suc.hyps(1) [OF d sj] show ?case
      using step [of j] sj by (subst fetch_loop.simps) simp
  qed
  have "int (length (?acc n)) = total"
    using len [of "n - 1"] rest n1 
    by (cases n) (simp_all add: algebra_simps)
  moreover have "fetch_loop srv term \<lparr>offset = 0, total_count = JNull, all_courses = []\<rparr> cl
      = Some (Inr (?acc n), ?cl n)"
    using run [OF n1] by simp
  ultimately show ?thesis by blast
qed

theorem paged_fetch_count_witness:
  "\<exists>courses.
     fetch_loop
       (\<lambda>h rq. case rq of
            SearchResults t off ps c \<Rightarrow>
              Response \<lparr>status_code = 200, cookies = [],
                content = Json (JObj [(''totalCount'', JInt 501),
                  (''data'', JArr (replicate (if off = 0 then 500 else 1) (JObj [])))])\<rparr>
          | _ \<Rightarrow> Failed)
       ''202510'' \<lparr>offset = 0, total_count = JNull, all_courses = []\<rparr>
       \<lparr>session_cookie = Some ''abc'', sent = []\<rparr>
     = Some (Inr courses,
        \<lparr>session_cookie = Some ''abc'',
         sent = [SearchResults ''202510'' 0 500 ''abc'', SearchResults ''202510'' 500 500 ''abc'']\<rparr>) \<and>
     int (length courses) = 501"
proof -
  let ?srv = "\<lambda>(h :: request list) rq. case rq of
            SearchResults t off ps c \<Rightarrow>
              Response \<lparr>status_code = 200, cookies = [],
                content = Json (JObj [(''totalCount'', JInt 501),
                  (''data'', JArr (replicate (if off = 0 then 500 else 1) (JObj [])))])\<rparr>
          | _ \<Rightarrow> Failed"
  let ?cl = "\<lparr>session_cookie = Some ''abc'', sent = []\<rparr>"
  let ?records = "\<lambda>k :: nat. replicate (if k = 0 then 500 else 1) (JObj [])"
  have cookie: "session_cookie ?cl = Some ''abc''" "''abc'' \<noteq> []"
    by simp_all
  have n: "(2 :: nat) = nat ((501 + page_size - 1) div page_size)"
    by (simp add: page_size_def)
  have resp: "\<exists>r obj.
      ?srv (sent ?cl @ map (page_request ''202510'' ''abc'') [0..<k])
        (page_request ''202510'' ''abc'' k) = Response r \<and>
      raise_for_status r = None \<and> content r = Json (JObj obj) \<and>
      dict_get obj ''data'' (JArr []) = JArr (?records k) \<and>
      (k = 0 \<longrightarrow> dict_get obj ''totalCount'' (JInt 0) = JInt 501)" if "k < 2" for k
  proof -
    from that consider "k = 0" | "k = 1" by linarith
    then show ?thesis
      by cases (simp_all add: page_request_def page_size_def raise_for_status_def dict_get_def)
  qed
  have full: "int (length (?records k)) = page_size" if "Suc k < 2" for k
    using that by (simp add: page_size_def)
  have rest: "int (length (?records (2 - 1))) = 501 - page_size * int (2 - 1)"
    by (simp add: page_size_def)
  have sent: "map (page_request ''202510'' ''abc'') [0..<2]
      = [SearchResults ''202510'' 0 500 ''abc'', SearchResults ''202510'' 500 500 ''abc'']"
    by (simp add: page_request_def page_size_def upt_rec)
  from paged_fetch_count [of ?cl "''abc''" 501 2 ?srv "''202510''" ?records,
      OF cookie _ n resp full rest]
  show ?thesis
    unfolding sent by simp
qed

section \<open>Properties of enrichment\<close>

lemma dict_get_Nil: "dict_get [] k d = d"
  by (simp add: dict_get_def)

lemma lookup_failed:
  "failed_lookup (srv (sent cl) rq) \<Longrightarrow> lookup srv rq cl = (JNull, cl\<lparr>sent := sent cl @ [rq]\<rparr>)"
  by (cases "srv (sent cl) rq") (auto simp: lookup_def send_def split: option.splits)

lemma lookup_json:
  "srv (sent cl) rq = Response r \<Longrightarrow> raise_for_status r = None \<Longrightarrow> content r = Json v \<Longrightarrow>
   lookup srv rq cl = (v, cl\<lparr>sent := sent cl @ [rq]\<rparr>)"
  by (simp add: lookup_def send_def)

lemma lookup_sent: "lookup srv rq cl = (v, cl1) \<Longrightarrow> cl1 = cl\<lparr>sent := sent cl @ [rq]\<rparr>"
  by (auto simp: lookup_def send_def split: http_result.splits option.splits body.splits)

lemma enrich_append:
  "enrich srv term (xs @ ys) cl =
     (case enrich srv term xs cl of
        (Inl e, cl1) \<Rightarrow> (Inl e, cl1)
      | (Inr xs1, cl1) \<Rightarrow>
          (case enrich srv term ys cl1 of
             (Inl e, cl2) \<Rightarrow> (Inl e, cl2)
           | (Inr ys1, cl2) \<Rightarrow> (Inr (xs1 @ ys1), cl2)))"
  by (induction xs arbitrary: cl) (auto split: prod.splits sum.splits)

lemma enrich_middle:
  assumes "enrich srv term before cl = (Inr before1, cl1)"
    and "enrich_course srv term course cl1 = (Inr course1, cl3)"
    and "enrich srv term after cl3 = (Inr after1, cl4)"
  shows "enrich srv term (before @ course # after) cl = (Inr (before1 @ course1 # after1), cl4)"
  using assms by (simp add: enrich_append)

text \<open>
  C4. Take a course with a course reference number anywhere in the list: the courses
  before it were enriched to \<open>before1\<close>, and the courses after it enrich to \<open>after1\<close>
  from the client that has sent the two lookups of this course (the client does not
  depend on how the lookups were answered). If both lookups fail, the overall result is
  returned with the course unchanged between \<open>before1\<close> and \<open>after1\<close>. If the class
  details fail and the meeting times succeed with a non-empty \<open>fmt\<close>, the course gets
  \<^verbatim>\<open>_faculty_meeting_times\<close> and no \<^verbatim>\<open>_detailed\<close>. If the class details succeed and the
  meeting times fail, it gets \<^verbatim>\<open>_detailed\<close> only. In every case the other courses are
  enriched as they are without the failure.
\<close>

theorem lookup_failure_is_local:
  assumes before: "enrich srv term before cl = (Inr before1, cl1)"
    and crn: "crn = dict_get kvs ''courseReferenceNumber'' JNull" "truthy crn"
    and cl2: "cl2 = cl1\<lparr>sent := sent cl1 @ [ClassDetails term crn]\<rparr>"
    and cl3: "cl3 = cl2\<lparr>sent := sent cl2 @ [FacultyMeetingTimes term crn]\<rparr>"
    and after: "enrich srv term after cl3 = (Inr after1, cl4)"
  shows
    "(failed_lookup (srv (sent cl1) (ClassDetails term crn)) \<and>
      failed_lookup (srv (sent cl2) (FacultyMeetingTimes term crn)) \<longrightarrow>
        enrich srv term (before @ JObj kvs # after) cl
          = (Inr (before1 @ JObj kvs # after1), cl4)) \<and>
     (\<forall>r m. failed_lookup (srv (sent cl1) (ClassDetails term crn)) \<and>
        srv (sent cl2) (FacultyMeetingTimes term crn) = Response r \<and>
        raise_for_status r = None \<and> content r = Json (JObj m) \<and>
        truthy (dict_get m ''fmt'' JNull) \<longrightarrow>
        enrich srv term (before @ JObj kvs # after) cl
          = (Inr (before1 @
               JObj (dict_set kvs ''_faculty_meeting_times'' (dict_get m ''fmt'' JNull)) # after1),
             cl4)) \<and>
     (\<forall>r d. srv (sent cl1) (ClassDetails term crn) = Response r \<and>
        raise_for_status r = None \<and> content r = Json d \<and> truthy d \<and>
        failed_lookup (srv (sent cl2) (FacultyMeetingTimes term crn)) \<longrightarrow>
        enrich srv term (before @ JObj kvs # after) cl
          = (Inr (before1 @ JObj (dict_set kvs ''_detailed'' d) # after1), cl4))"
proof (intro conjI allI impI; elim conjE)
  assume "failed_lookup (srv (sent cl1) (ClassDetails term crn))"
    and "failed_lookup (srv (sent cl2) (FacultyMeetingTimes term crn))"
  then have "enrich_course srv term (JObj kvs) cl1 = (Inr (JObj kvs), cl3)"
    using crn cl2 cl3
    by (simp add: enrich_course_def get_class_details_def get_faculty_meeting_times_def
        lookup_failed Let_def)
  then show "enrich srv term (before @ JObj kvs # after) cl
      = (Inr (before1 @ JObj kvs # after1), cl4)"
    by (rule enrich_middle [OF before _ after])
next
  fix r m
  assume "failed_lookup (srv (sent cl1) (ClassDetails term crn))"
    and "srv (sent cl2) (FacultyMeetingTimes term crn) = Response r"
    and "raise_for_status r = None" and "content r = Json (JObj m)"
    and "truthy (dict_get m ''fmt'' JNull)"
  then have "enrich_course srv term (JObj kvs) cl1
      = (Inr (JObj (dict_set kvs ''_faculty_meeting_times'' (dict_get m ''fmt'' JNull))), cl3)"
    using crn cl2 cl3
    by (cases m)
      (auto simp: enrich_course_def get_class_details_def get_faculty_meeting_times_def
        lookup_failed lookup_json Let_def dict_get_Nil)
  then show "enrich srv term (before @ JObj kvs # after) cl
      = (Inr (before1 @
           JObj (dict_set kvs ''_faculty_meeting_times'' (dict_get m ''fmt'' JNull)) # after1), cl4)"
    by (rule enrich_middle [OF before _ after])
next
  fix r d
  assume "srv (sent cl1) (ClassDetails term crn) = Response r"
    and "raise_for_status r = None" and "content r = Json d" and "truthy d"
    and "failed_lookup (srv (sent cl2) (FacultyMeetingTimes term crn))"
  then have "enrich_course srv term (JObj kvs) cl1
      = (Inr (JObj (dict_set kvs ''_detailed'' d)), cl3)"
    using crn cl2 cl3
    by (simp add: enrich_course_def get_class_details_def get_faculty_meeting_times_def
        lookup_failed lookup_json Let_def)
  then show "enrich srv term (before @ JObj kvs # after) cl
      = (Inr (before1 @ JObj (dict_set kvs ''_detailed'' d) # after1), cl4)"
    by (rule enrich_middle [OF before _ after])
qed

theorem lookup_failure_is_local_witness:
  "enrich
     (\<lambda>h rq. case rq of
          ClassDetails t crn \<Rightarrow>
            (if crn = JStr ''111''
             then Response \<lparr>status_code = 500, cookies = [], content = NoText\<rparr>
             else Response \<lparr>status_code = 200, cookies = [],
                    content = Json (JObj [(''x'', JInt 1)])\<rparr>)
        | FacultyMeetingTimes t crn \<Rightarrow>
            (if crn = JStr ''111''
             then Response \<lparr>status_code = 200, cookies = [],
                    content = Json (JObj [(''fmt'', JArr [JObj []])])\<rparr>
             else Failed)
        | _ \<Rightarrow> Failed)
     ''202510''
     [JObj [(''courseReferenceNumber'', JStr ''111'')],
      JObj [(''courseReferenceNumber'', JStr ''222'')]]
     \<lparr>session_cookie = Some ''abc'', sent = []\<rparr>
   = (Inr [JObj [(''courseReferenceNumber'', JStr ''111''),
                 (''_faculty_meeting_times'', JArr [JObj []])],
           JObj [(''courseReferenceNumber'', JStr ''222''),
                 (''_detailed'', JObj [(''x'', JInt 1)])]],
      \<lparr>session_cookie = Some ''abc'',
       sent = [ClassDetails ''202510'' (JStr ''111''),
               FacultyMeetingTimes ''202510'' (JStr ''111''),
               ClassDetails ''202510'' (JStr ''222''),
               FacultyMeetingTimes ''202510'' (JStr ''222'')]\<rparr>)"
proof -
  let ?srv = "\<lambda>(h :: request list) rq. case rq of
          ClassDetails t crn \<Rightarrow>
            (if crn = JStr ''111''
             then Response \<lparr>status_code = 500, cookies = [], content = NoText\<rparr>
             else Response \<lparr>status_code = 200, cookies = [],
                    content = Json (JObj [(''x'', JInt 1)])\<rparr>)
        | FacultyMeetingTimes t crn \<Rightarrow>
            (if crn = JStr ''111''
             then Response \<lparr>status_code = 200, cookies = [],
                    content = Json (JObj [(''fmt'', JArr [JObj []])])\<rparr>
             else Failed)
        | _ \<Rightarrow> Failed"
  let ?kvs = "[(''courseReferenceNumber'', JStr ''111'')]"
  let ?cl = "\<lparr>session_cookie = Some ''abc'', sent = []\<rparr>"
  let ?cl2 = "?cl\<lparr>sent := sent ?cl @ [ClassDetails ''202510'' (JStr ''111'')]\<rparr>"
  let ?cl3 = "?cl2\<lparr>sent := sent ?cl2 @ [FacultyMeetingTimes ''202510'' (JStr ''111'')]\<rparr>"
  let ?cl4 = "\<lparr>session_cookie = Some ''abc'',
       sent = [ClassDetails ''202510'' (JStr ''111''),
               FacultyMeetingTimes ''202510'' (JStr ''111''),
               ClassDetails ''202510'' (JStr ''222''),
               FacultyMeetingTimes ''202510'' (JStr ''222'')]\<rparr>"
  have before: "enrich ?srv ''202510'' [] ?cl = (Inr [], ?cl)"
    by simp
  have crn: "JStr ''111'' = dict_get ?kvs ''courseReferenceNumber'' JNull" "truthy (JStr ''111'')"
    by (simp_all add: dict_get_def)
  have after: "enrich ?srv ''202510'' [JObj [(''courseReferenceNumber'', JStr ''222'')]] ?cl3
      = (Inr [JObj [(''courseReferenceNumber'', JStr ''222''),
                    (''_detailed'', JObj [(''x'', JInt 1)])]], ?cl4)"
    by (simp add: enrich_course_def get_class_details_def get_faculty_meeting_times_def
        lookup_def send_def raise_for_status_def dict_get_def dict_set_def Let_def)
  let ?r = "\<lparr>status_code = 200, cookies = [],
                    content = Json (JObj [(''fmt'', JArr [JObj []])])\<rparr>"
  have prem: "failed_lookup (?srv (sent ?cl) (ClassDetails ''202510'' (JStr ''111''))) \<and>
      ?srv (sent ?cl2) (FacultyMeetingTimes ''202510'' (JStr ''111'')) = Response ?r \<and>
      raise_for_status ?r = None \<and> content ?r = Json (JObj [(''fmt'', JArr [JObj []])]) \<and>
      truthy (dict_get [(''fmt'', JArr [JObj []])] ''fmt'' JNull)"
    by (simp add: raise_for_status_def dict_get_def)
  from lookup_failure_is_local [OF before crn refl refl after,
      THEN conjunct2, THEN conjunct1, THEN spec, THEN spec, THEN mp, OF prem]
  show ?thesis
    by (simp add: dict_get_def dict_set_def)
qed

lemma map_of_dict_set: "map_of (dict_set kvs k v) = (map_of kvs)(k \<mapsto> v)"
  by (simp add: dict_set_def update_conv')

lemma dict_get_dict_set:
  "dict_get (dict_set kvs k v) k' d = (if k' = k then v else dict_get kvs k' d)"
  by (simp add: dict_get_def map_of_dict_set)

text \<open>
  C9. For a course with a course reference number, let \<open>kvs1\<close> be the course after the
  class-details step. If the meeting-times lookup returns a dictionary whose \<open>fmt\<close> is
  truthy (a non-empty list), the course gets \<^verbatim>\<open>_faculty_meeting_times\<close> set to that \<open>fmt\<close>
  value itself, and the flattener reads the meeting data from it. If the lookup returns
  nothing (or a falsy value), or a dictionary whose \<open>fmt\<close> is missing or empty, nothing is attached: the
  key is as it was in the summary, and when the summary has no such key the flattener
  falls back to \<^verbatim>\<open>meetingsFaculty\<close>. An attached empty list would not be read either.
\<close>

theorem fmt_attached_iff_nonempty:
  assumes crn: "crn = dict_get kvs ''courseReferenceNumber'' JNull" "truthy crn"
    and details: "get_class_details srv term crn cl = (details, cl1)"
    and times: "get_faculty_meeting_times srv term crn cl1 = (answer, cl2)"
    and kvs1: "kvs1 = (if truthy details then dict_set kvs ''_detailed'' details else kvs)"
  shows
    "(\<forall>m. answer = JObj m \<and> truthy (dict_get m ''fmt'' JNull) \<longrightarrow>
        enrich_course srv term (JObj kvs) cl
          = (Inr (JObj (dict_set kvs1 ''_faculty_meeting_times'' (dict_get m ''fmt'' JNull))), cl2) \<and>
        dict_get (dict_set kvs1 ''_faculty_meeting_times'' (dict_get m ''fmt'' JNull))
          ''_faculty_meeting_times'' JNull = dict_get m ''fmt'' JNull \<and>
        course_meetings (dict_set kvs1 ''_faculty_meeting_times'' (dict_get m ''fmt'' JNull))
          = fmt_meetings (dict_get m ''fmt'' JNull)) \<and>
     (\<forall>m. \<not> truthy answer \<or>
          answer = JObj m \<and> \<not> truthy (dict_get m ''fmt'' JNull) \<longrightarrow>
        enrich_course srv term (JObj kvs) cl = (Inr (JObj kvs1), cl2) \<and>
        map_of kvs1 ''_faculty_meeting_times'' = map_of kvs ''_faculty_meeting_times'' \<and>
        (map_of kvs ''_faculty_meeting_times'' = None \<longrightarrow>
           course_meetings kvs1 =
             (if truthy (dict_get kvs ''meetingsFaculty'' JNull)
              then embedded_meetings (dict_get kvs ''meetingsFaculty'' JNull)
              else Inr no_meetings))) \<and>
     (\<forall>c. course_meetings (dict_set c ''_faculty_meeting_times'' (JArr [])) =
        (if truthy (dict_get c ''meetingsFaculty'' JNull)
         then embedded_meetings (dict_get c ''meetingsFaculty'' JNull)
         else Inr no_meetings))"
proof (intro conjI allI impI)
  fix m
  assume "answer = JObj m \<and> truthy (dict_get m ''fmt'' JNull)"
  then show "enrich_course srv term (JObj kvs) cl
      = (Inr (JObj (dict_set kvs1 ''_faculty_meeting_times'' (dict_get m ''fmt'' JNull))), cl2)"
    using crn details times kvs1
    by (cases m) (auto simp: enrich_course_def Let_def dict_get_Nil)
next
  fix m
  show "dict_get (dict_set kvs1 ''_faculty_meeting_times'' (dict_get m ''fmt'' JNull))
          ''_faculty_meeting_times'' JNull = dict_get m ''fmt'' JNull"
    by (simp add: dict_get_dict_set)
next
  fix m
  assume "answer = JObj m \<and> truthy (dict_get m ''fmt'' JNull)"
  then show "course_meetings (dict_set kvs1 ''_faculty_meeting_times'' (dict_get m ''fmt'' JNull))
      = fmt_meetings (dict_get m ''fmt'' JNull)"
    by (simp add: course_meetings_def dict_get_dict_set)
next
  fix m
  assume "\<not> truthy answer \<or> answer = JObj m \<and> \<not> truthy (dict_get m ''fmt'' JNull)"
  then show "enrich_course srv term (JObj kvs) cl = (Inr (JObj kvs1), cl2)"
    using crn details times kvs1
    by (auto simp: enrich_course_def Let_def)
next
  show "map_of kvs1 ''_faculty_meeting_times'' = map_of kvs ''_faculty_meeting_times''"
    using kvs1 by (simp add: map_of_dict_set)
next
  assume "map_of kvs ''_faculty_meeting_times'' = None"
  then show "course_meetings kvs1 =
             (if truthy (dict_get kvs ''meetingsFaculty'' JNull)
              then embedded_meetings (dict_get kvs ''meetingsFaculty'' JNull)
              else Inr no_meetings)"
    using kvs1 by (simp add: course_meetings_def dict_get_def map_of_dict_set)
next
  fix c
  show "course_meetings (dict_set c ''_faculty_meeting_times'' (JArr [])) =
        (if truthy (dict_get c ''meetingsFaculty'' JNull)
         then embedded_meetings (dict_get c ''meetingsFaculty'' JNull)
         else Inr no_meetings)"
    by (simp add: course_meetings_def dict_get_dict_set)
qed

theorem fmt_attached_iff_nonempty_witness:
  "enrich_course
     (\<lambda>h rq. case rq of
          FacultyMeetingTimes t crn \<Rightarrow>
            Response \<lparr>status_code = 200, cookies = [],
              content = Json (JObj [(''fmt'',
                JArr [JObj [(''meetingTime'', JObj [(''monday'', JBool True)])]])])\<rparr>
        | _ \<Rightarrow> Failed)
     ''202510''
     (JObj [(''courseReferenceNumber'', JStr ''111''),
            (''meetingsFaculty'', JArr [JObj [(''meetingTime'', JObj [(''friday'', JBool True)])]])])
     \<lparr>session_cookie = Some ''abc'', sent = []\<rparr>
   = (Inr (JObj [(''courseReferenceNumber'', JStr ''111''),
            (''meetingsFaculty'', JArr [JObj [(''meetingTime'', JObj [(''friday'', JBool True)])]]),
            (''_faculty_meeting_times'',
               JArr [JObj [(''meetingTime'', JObj [(''monday'', JBool True)])]])]),
      \<lparr>session_cookie = Some ''abc'',
       sent = [ClassDetails ''202510'' (JStr ''111''),
               FacultyMeetingTimes ''202510'' (JStr ''111'')]\<rparr>) \<and>
   course_meetings [(''courseReferenceNumber'', JStr ''111''),
            (''meetingsFaculty'', JArr [JObj [(''meetingTime'', JObj [(''friday'', JBool True)])]]),
            (''_faculty_meeting_times'',
               JArr [JObj [(''meetingTime'', JObj [(''monday'', JBool True)])]])]
   = fmt_meetings (JArr [JObj [(''meetingTime'', JObj [(''monday'', JBool True)])]])"
proof -
  let ?srv = "\<lambda>(h :: request list) rq. case rq of
          FacultyMeetingTimes t crn \<Rightarrow>
            Response \<lparr>status_code = 200, cookies = [],
              content = Json (JObj [(''fmt'',
                JArr [JObj [(''meetingTime'', JObj [(''monday'', JBool True)])]])])\<rparr>
        | _ \<Rightarrow> Failed"
  let ?kvs = "[(''courseReferenceNumber'', JStr ''111''),
            (''meetingsFaculty'', JArr [JObj [(''meetingTime'', JObj [(''friday'', JBool True)])]])]"
  let ?m = "[(''fmt'', JArr [JObj [(''meetingTime'', JObj [(''monday'', JBool True)])]])]"
  let ?cl = "\<lparr>session_cookie = Some ''abc'', sent = []\<rparr>"
  let ?cl1 = "\<lparr>session_cookie = Some ''abc'', sent = [ClassDetails ''202510'' (JStr ''111'')]\<rparr>"
  let ?cl2 = "\<lparr>session_cookie = Some ''abc'',
       sent = [ClassDetails ''202510'' (JStr ''111''),
               FacultyMeetingTimes ''202510'' (JStr ''111'')]\<rparr>"
  have crn: "JStr ''111'' = dict_get ?kvs ''courseReferenceNumber'' JNull" "truthy (JStr ''111'')"
    by (simp_all add: dict_get_def)
  have details: "get_class_details ?srv ''202510'' (JStr ''111'') ?cl = (JNull, ?cl1)"
    by (simp add: get_class_details_def lookup_def send_def)
  have times: "get_faculty_meeting_times ?srv ''202510'' (JStr ''111'') ?cl1 = (JObj ?m, ?cl2)"
    by (simp add: get_faculty_meeting_times_def lookup_def send_def raise_for_status_def)
  have kvs1: "?kvs = (if truthy JNull then dict_set ?kvs ''_detailed'' JNull else ?kvs)"
    by simp
  have prem: "JObj ?m = JObj ?m \<and> truthy (dict_get ?m ''fmt'' JNull)"
    by (simp add: dict_get_def)
  from fmt_attached_iff_nonempty [OF crn details times kvs1, THEN conjunct1, THEN spec,
      THEN mp, OF prem]
  show ?thesis
    by (simp add: dict_get_def dict_set_def)
qed

section \<open>Properties of flatten_course_data\<close>

text \<open>
  C5. The summary with faculty \<^verbatim>\<open>[{displayName: "A. Smith"}]\<close>, no detail attachments and
  the one embedded meeting entry \<^verbatim>\<open>{monday: true, wednesday: true, beginTime: "1000",
  endTime: "1050", building: "WENT", room: "100"}\<close> flattens to Faculty "A. Smith",
  Meeting Days "MW", Meeting Times "1000-1050" and Location "WENT 100"; every other
  field is the empty string.
\<close>

theorem flatten_example:
  "flatten_course_data
     (JObj [(''faculty'', JArr [JObj [(''displayName'', JStr ''A. Smith'')]]),
            (''meetingsFaculty'',
               JArr [JObj [(''meetingTime'',
                  JObj [(''monday'', JBool True), (''wednesday'', JBool True),
                        (''beginTime'', JStr ''1000''), (''endTime'', JStr ''1050''),
                        (''building'', JStr ''WENT''), (''room'', JStr ''100'')])]])])
   = Inr [(''CRN'', JStr ''''), (''Subject'', JStr ''''), (''Course Number'', JStr ''''),
          (''Section'', JStr ''''), (''Title'', JStr ''''), (''Credit Hours'', JStr ''''),
          (''Schedule Type'', JStr ''''), (''Instructional Method'', JStr ''''),
          (''Faculty'', JStr ''A. Smith''), (''Meeting Days'', JStr ''MW''),
          (''Meeting Times'', JStr ''1000-1050''), (''Location'', JStr ''WENT 100''),
          (''Campus'', JStr ''''), (''Enrollment Current'', JStr ''''),
          (''Enrollment Max'', JStr ''''), (''Seats Available'', JStr ''''),
          (''Waitlist Current'', JStr ''''), (''Waitlist Max'', JStr '''')]"
  by code_simp

lemma map_of_flatten:
  assumes "flatten_course_data (JObj c) = Inr r"
  shows "\<exists>m location. course_meetings c = Inr m \<and>
     py_join '', '' (meeting_locations m) = Inr location \<and>
     map_of r ''Meeting Days'' = Some (JStr (join '', '' (meeting_days m))) \<and>
     map_of r ''Meeting Times'' = Some (JStr (join '', '' (meeting_times m))) \<and>
     map_of r ''Location'' = Some (JStr location)"
  using assms by (auto simp: flatten_course_data_def split: sum.splits)

text \<open>
  C3. When the course has attached faculty-meeting-time data (a truthy
  \<^verbatim>\<open>_faculty_meeting_times\<close>), the meeting lists are those of the loop over the attached
  entries, the three flattened fields are the joins of these lists, and the embedded
  data has no influence at all: a course that differs only in \<^verbatim>\<open>meetingsFaculty\<close>
  (another value, or none) flattens to the same result.
\<close>

theorem fmt_supersedes_embedded:
  assumes "truthy (dict_get c ''_faculty_meeting_times'' JNull)"
  shows "course_meetings c = fmt_meetings (dict_get c ''_faculty_meeting_times'' JNull) \<and>
    (\<forall>r. flatten_course_data (JObj c) = Inr r \<longrightarrow>
       (\<exists>m location.
          fmt_meetings (dict_get c ''_faculty_meeting_times'' JNull) = Inr m \<and>
          py_join '', '' (meeting_locations m) = Inr location \<and>
          map_of r ''Meeting Days'' = Some (JStr (join '', '' (meeting_days m))) \<and>
          map_of r ''Meeting Times'' = Some (JStr (join '', '' (meeting_times m))) \<and>
          map_of r ''Location'' = Some (JStr location))) \<and>
    (\<forall>c'. (\<forall>k. k \<noteq> ''meetingsFaculty'' \<longrightarrow> map_of c' k = map_of c k) \<longrightarrow>
       flatten_course_data (JObj c') = flatten_course_data (JObj c))"
proof (intro conjI allI impI)
  show fmt: "course_meetings c = fmt_meetings (dict_get c ''_faculty_meeting_times'' JNull)"
    using assms by (simp add: course_meetings_def)
  fix r
  assume "flatten_course_data (JObj c) = Inr r"
  from map_of_flatten [OF this] fmt
  show "\<exists>m location.
          fmt_meetings (dict_get c ''_faculty_meeting_times'' JNull) = Inr m \<and>
          py_join '', '' (meeting_locations m) = Inr location \<and>
          map_of r ''Meeting Days'' = Some (JStr (join '', '' (meeting_days m))) \<and>
          map_of r ''Meeting Times'' = Some (JStr (join '', '' (meeting_times m))) \<and>
          map_of r ''Location'' = Some (JStr location)"
    by simp
next
  fix c'
  assume same: "\<forall>k. k \<noteq> ''meetingsFaculty'' \<longrightarrow> map_of c' k = map_of c k"
  then have get: "dict_get c' k d = dict_get c k d" if "k \<noteq> ''meetingsFaculty''" for k d
    using that by (simp add: dict_get_def)
  have "faculty_names c' = faculty_names c"
    by (simp add: faculty_names_def get)
  moreover have "course_meetings c' = course_meetings c"
    using assms by (simp add: course_meetings_def get)
  ultimately show "flatten_course_data (JObj c') = flatten_course_data (JObj c)"
    by (simp add: flatten_course_data_def get split: sum.splits)
qed

theorem fmt_supersedes_embedded_witness:
  "course_meetings
     [(''_faculty_meeting_times'',
         JArr [JObj [(''meetingTime'',
           JObj [(''tuesday'', JBool True), (''beginTime'', JStr ''0800''),
                 (''endTime'', JStr ''0915''), (''room'', JStr ''210'')])]]),
      (''meetingsFaculty'',
         JArr [JObj [(''meetingTime'',
           JObj [(''monday'', JBool True), (''beginTime'', JStr ''1000''),
                 (''endTime'', JStr ''1050''), (''building'', JStr ''WENT'')])]])]
   = fmt_meetings
       (JArr [JObj [(''meetingTime'',
           JObj [(''tuesday'', JBool True), (''beginTime'', JStr ''0800''),
                 (''endTime'', JStr ''0915''), (''room'', JStr ''210'')])]]) \<and>
   flatten_course_data (JObj
     [(''_faculty_meeting_times'',
         JArr [JObj [(''meetingTime'',
           JObj [(''tuesday'', JBool True), (''beginTime'', JStr ''0800''),
                 (''endTime'', JStr ''0915''), (''room'', JStr ''210'')])]])])
   = flatten_course_data (JObj
     [(''_faculty_meeting_times'',
         JArr [JObj [(''meetingTime'',
           JObj [(''tuesday'', JBool True), (''beginTime'', JStr ''0800''),
                 (''endTime'', JStr ''0915''), (''room'', JStr ''210'')])]]),
      (''meetingsFaculty'',
         JArr [JObj [(''meetingTime'',
           JObj [(''monday'', JBool True), (''beginTime'', JStr ''1000''),
                 (''endTime'', JStr ''1050''), (''building'', JStr ''WENT'')])]])])"
proof -
  let ?fmt = "JArr [JObj [(''meetingTime'',
           JObj [(''tuesday'', JBool True), (''beginTime'', JStr ''0800''),
                 (''endTime'', JStr ''0915''), (''room'', JStr ''210'')])]]"
  let ?c = "[(''_faculty_meeting_times'', ?fmt),
      (''meetingsFaculty'',
         JArr [JObj [(''meetingTime'',
           JObj [(''monday'', JBool True), (''beginTime'', JStr ''1000''),
                 (''endTime'', JStr ''1050''), (''building'', JStr ''WENT'')])]])]"
  have attached: "dict_get ?c ''_faculty_meeting_times'' JNull = ?fmt"
    by (simp add: dict_get_def)
  then have t: "truthy (dict_get ?c ''_faculty_meeting_times'' JNull)"
    by simp
  have same: "\<forall>k. k \<noteq> ''meetingsFaculty'' \<longrightarrow>
      map_of [(''_faculty_meeting_times'', ?fmt)] k = map_of ?c k"
    by simp
  from fmt_supersedes_embedded [OF t, THEN conjunct1]
    fmt_supersedes_embedded [OF t, THEN conjunct2, THEN conjunct2, THEN spec, THEN mp, OF same]
  show ?thesis
    unfolding attached by (rule conjI)
qed

text \<open>
  C10. Both meeting loops treat the three lists independently. For an entry whose
  \<^verbatim>\<open>meetingTime\<close> is the dictionary \<open>mt\<close>, the days list grows by one string exactly when
  some day flag is truthy, the times list by one string exactly when \<open>beginTime\<close> and
  \<open>endTime\<close> are both truthy, and the locations list by one item exactly when the entry
  has a building (or, in the faculty-meeting-time loop, a building description) or a
  room; none of the three looks at the data of the other two. So the lists can have
  different lengths: the course of two entries shown here, the first with times only
  and the second with a day, times and a location, flattens to one day string, two time
  strings and one location, whichever of the two sources holds the entries.
\<close>

theorem meeting_fields_filtered_independently:
  "(\<forall>acc e mt. py_get e ''meetingTime'' (JObj []) = Inr (JObj mt) \<longrightarrow>
      (\<exists>acc1 acc2.
         fmt_entry acc e = Inr acc1 \<and> meeting_entry acc e = Inr acc2 \<and>
         meeting_days acc1 =
           meeting_days acc @ (if week_days mt = [] then [] else [join [] (week_days mt)]) \<and>
         meeting_days acc2 = meeting_days acc1 \<and>
         meeting_times acc1 =
           meeting_times acc @
             (if truthy (dict_get mt ''beginTime'' (JStr [])) \<and>
                 truthy (dict_get mt ''endTime'' (JStr []))
              then [py_str (dict_get mt ''beginTime'' (JStr [])) @ ''-'' @
                    py_str (dict_get mt ''endTime'' (JStr []))]
              else []) \<and>
         meeting_times acc2 = meeting_times acc1 \<and>
         (\<not> truthy (dict_get mt ''buildingDescription'' (JStr [])) \<and>
          \<not> truthy (dict_get mt ''building'' (JStr [])) \<and>
          \<not> truthy (dict_get mt ''room'' (JStr [])) \<longrightarrow>
            meeting_locations acc1 = meeting_locations acc) \<and>
         meeting_locations acc2 =
           meeting_locations acc @
             (if truthy (dict_get mt ''building'' (JStr [])) \<or>
                 truthy (dict_get mt ''room'' (JStr []))
              then [JStr (strip (py_str (dict_get mt ''building'' (JStr [])) @ '' '' @
                                 py_str (dict_get mt ''room'' (JStr []))))]
              else []))) \<and>
   (\<forall>key \<in> {''_faculty_meeting_times'', ''meetingsFaculty''}.
      \<exists>r. flatten_course_data
             (JObj [(key, JArr
                [JObj [(''meetingTime'',
                   JObj [(''beginTime'', JStr ''0800''), (''endTime'', JStr ''0915'')])],
                 JObj [(''meetingTime'',
                   JObj [(''monday'', JBool True), (''beginTime'', JStr ''1000''),
                         (''endTime'', JStr ''1050''), (''building'', JStr ''WENT''),
                         (''room'', JStr ''100'')])]])]) = Inr r \<and>
          map_of r ''Meeting Days'' = Some (JStr ''M'') \<and>
          map_of r ''Meeting Times'' = Some (JStr ''0800-0915, 1000-1050'') \<and>
          map_of r ''Location'' = Some (JStr ''WENT 100''))"
proof (intro conjI allI impI ballI)
  fix acc e mt
  assume "py_get e ''meetingTime'' (JObj []) = Inr (JObj mt)"
  then show "\<exists>acc1 acc2.
         fmt_entry acc e = Inr acc1 \<and> meeting_entry acc e = Inr acc2 \<and>
         meeting_days acc1 =
           meeting_days acc @ (if week_days mt = [] then [] else [join [] (week_days mt)]) \<and>
         meeting_days acc2 = meeting_days acc1 \<and>
         meeting_times acc1 =
           meeting_times acc @
             (if truthy (dict_get mt ''beginTime'' (JStr [])) \<and>
                 truthy (dict_get mt ''endTime'' (JStr []))
              then [py_str (dict_get mt ''beginTime'' (JStr [])) @ ''-'' @
                    py_str (dict_get mt ''endTime'' (JStr []))]
              else []) \<and>
         meeting_times acc2 = meeting_times acc1 \<and>
         (\<not> truthy (dict_get mt ''buildingDescription'' (JStr [])) \<and>
          \<not> truthy (dict_get mt ''building'' (JStr [])) \<and>
          \<not> truthy (dict_get mt ''room'' (JStr [])) \<longrightarrow>
            meeting_locations acc1 = meeting_locations acc) \<and>
         meeting_locations acc2 =
           meeting_locations acc @
             (if truthy (dict_get mt ''building'' (JStr [])) \<or>
                 truthy (dict_get mt ''room'' (JStr []))
              then [JStr (strip (py_str (dict_get mt ''building'' (JStr [])) @ '' '' @
                                 py_str (dict_get mt ''room'' (JStr []))))]
              else [])"
    by (cases e)
      (auto simp: fmt_entry_def meeting_entry_def add_days_def add_times_def
        add_fmt_location_def add_location_def Let_def)
next
  fix key :: string
  assume "key \<in> {''_faculty_meeting_times'', ''meetingsFaculty''}"
  then consider "key = ''_faculty_meeting_times''" | "key = ''meetingsFaculty''"
    by auto
  then have "flatten_course_data
             (JObj [(key, JArr
                [JObj [(''meetingTime'',
                   JObj [(''beginTime'', JStr ''0800''), (''endTime'', JStr ''0915'')])],
                 JObj [(''meetingTime'',
                   JObj [(''monday'', JBool True), (''beginTime'', JStr ''1000''),
                         (''endTime'', JStr ''1050''), (''building'', JStr ''WENT''),
                         (''room'', JStr ''100'')])]])])
      = Inr [(''CRN'', JStr []), (''Subject'', JStr []), (''Course Number'', JStr []),
          (''Section'', JStr []), (''Title'', JStr []), (''Credit Hours'', JStr []),
          (''Schedule Type'', JStr []), (''Instructional Method'', JStr []),
          (''Faculty'', JStr []), (''Meeting Days'', JStr ''M''),
          (''Meeting Times'', JStr ''0800-0915, 1000-1050''), (''Location'', JStr ''WENT 100''),
          (''Campus'', JStr []), (''Enrollment Current'', JStr []),
          (''Enrollment Max'', JStr []), (''Seats Available'', JStr []),
          (''Waitlist Current'', JStr []), (''Waitlist Max'', JStr [])]"
    by cases (simp_all, code_simp+)
  then show "\<exists>r. flatten_course_data
             (JObj [(key, JArr
                [JObj [(''meetingTime'',
                   JObj [(''beginTime'', JStr ''0800''), (''endTime'', JStr ''0915'')])],
                 JObj [(''meetingTime'',
                   JObj [(''monday'', JBool True), (''beginTime'', JStr ''1000''),
                         (''endTime'', JStr ''1050''), (''building'', JStr ''WENT''),
                         (''room'', JStr ''100'')])]])]) = Inr r \<and>
          map_of r ''Meeting Days'' = Some (JStr ''M'') \<and>
          map_of r ''Meeting Times'' = Some (JStr ''0800-0915, 1000-1050'') \<and>
          map_of r ''Location'' = Some (JStr ''WENT 100'')"
    by simp
qed

theorem meeting_fields_filtered_independently_witness:
  "(\<exists>acc1 acc2.
      fmt_entry no_meetings
        (JObj [(''meetingTime'',
           JObj [(''beginTime'', JStr ''0800''), (''endTime'', JStr ''0915'')])]) = Inr acc1 \<and>
      meeting_entry no_meetings
        (JObj [(''meetingTime'',
           JObj [(''beginTime'', JStr ''0800''), (''endTime'', JStr ''0915'')])]) = Inr acc2 \<and>
      meeting_days acc1 = [] \<and> meeting_days acc2 = [] \<and>
      meeting_times acc1 = [''0800-0915''] \<and> meeting_times acc2 = [''0800-0915''] \<and>
      meeting_locations acc1 = [] \<and> meeting_locations acc2 = []) \<and>
   (\<exists>r. flatten_course_data
          (JObj [(''meetingsFaculty'', JArr
             [JObj [(''meetingTime'',
                JObj [(''beginTime'', JStr ''0800''), (''endTime'', JStr ''0915'')])],
              JObj [(''meetingTime'',
                JObj [(''monday'', JBool True), (''beginTime'', JStr ''1000''),
                      (''endTime'', JStr ''1050''), (''building'', JStr ''WENT''),
                      (''room'', JStr ''100'')])]])]) = Inr r \<and>
        map_of r ''Meeting Days'' = Some (JStr ''M'') \<and>
        map_of r ''Meeting Times'' = Some (JStr ''0800-0915, 1000-1050'') \<and>
        map_of r ''Location'' = Some (JStr ''WENT 100''))"
proof -
  let ?mt = "[(''beginTime'', JStr ''0800''), (''endTime'', JStr ''0915'')]"
  have entry: "py_get (JObj [(''meetingTime'', JObj ?mt)]) ''meetingTime'' (JObj []) = Inr (JObj ?mt)"
    by (simp add: dict_get_def)
  have days: "week_days ?mt = []"
    by (simp add: week_days_def day_names_def dict_get_def)
  have key: "''meetingsFaculty'' \<in> {''_faculty_meeting_times'', ''meetingsFaculty''}"
    by simp
  from meeting_fields_filtered_independently [THEN conjunct1, THEN spec, THEN spec, THEN spec,
      THEN mp, OF entry, of no_meetings]
    meeting_fields_filtered_independently [THEN conjunct2, THEN bspec, OF key]
  show ?thesis
    unfolding days by (auto simp: dict_get_def no_meetings_def)
qed

lemma the_strs_snoc:
  "the_strs vs = Inr ss \<Longrightarrow> the_strs (vs @ [JStr s]) = Inr (ss @ [s])"
  by (induction vs arbitrary: ss rule: the_strs.induct) (auto split: sum.splits)

lemma faculty_loop_ok:
  "list_all faculty_ok fs \<Longrightarrow> \<exists>names ss. faculty_loop fs = Inr names \<and> the_strs names = Inr ss"
proof (induction fs)
  case Nil
  show ?case by simp
next
  case (Cons f fs)
  then obtain names ss where rest: "faculty_loop fs = Inr names" "the_strs names = Inr ss"
    by auto
  from Cons.prems obtain kv where f: "f = JObj kv" "is_text (dict_get kv ''displayName'' JNull)"
    by (auto simp: faculty_ok_def split: jv.splits)
  then have "is_text (dict_get kv ''displayName'' (JStr []))"
    by (auto simp: dict_get_def split: option.splits)
  then show ?case
    using f rest by (cases "dict_get kv ''displayName'' (JStr [])") auto
qed

lemma fmt_entry_ok:
  assumes "fmt_ok e" and "the_strs (meeting_locations acc) = Inr ss"
  shows "\<exists>acc1 ss1. fmt_entry acc e = Inr acc1 \<and> the_strs (meeting_locations acc1) = Inr ss1"
proof -
  from assms(1) obtain kv mt where e: "e = JObj kv" "dict_get kv ''meetingTime'' (JObj []) = JObj mt"
    and d: "is_text (dict_get mt ''buildingDescription'' JNull)"
    and b: "is_text (dict_get mt ''building'' JNull)"
    by (auto simp: fmt_ok_def meeting_time_of_def split: jv.splits option.splits)
  have d': "is_text (dict_get mt ''buildingDescription'' (JStr []))"
    using d by (auto simp: dict_get_def split: option.splits)
  have b': "is_text (dict_get mt ''building'' (JStr []))"
    using b by (auto simp: dict_get_def split: option.splits)
  show ?thesis
    using e assms(2) d' b'
    by (cases "dict_get mt ''buildingDescription'' (JStr [])";
        cases "dict_get mt ''building'' (JStr [])")
      (auto simp: fmt_entry_def add_fmt_location_def add_times_def add_days_def Let_def
        the_strs_snoc)
qed

lemma meeting_entry_ok:
  assumes "meeting_ok e" and "the_strs (meeting_locations acc) = Inr ss"
  shows "\<exists>acc1 ss1. meeting_entry acc e = Inr acc1 \<and> the_strs (meeting_locations acc1) = Inr ss1"
proof -
  from assms(1) obtain kv mt where e: "e = JObj kv" "dict_get kv ''meetingTime'' (JObj []) = JObj mt"
    by (auto simp: meeting_ok_def meeting_time_of_def split: jv.splits option.splits)
  then show ?thesis
    using assms(2)
    by (auto simp: meeting_entry_def add_location_def add_times_def add_days_def Let_def
        the_strs_snoc)
qed

lemma for_each_ok:
  assumes step: "\<And>acc e ss. ok e \<Longrightarrow> the_strs (meeting_locations acc) = Inr ss \<Longrightarrow>
      \<exists>acc1 ss1. body acc e = Inr acc1 \<and> the_strs (meeting_locations acc1) = Inr ss1"
  shows "list_all ok es \<Longrightarrow> the_strs (meeting_locations acc) = Inr ss \<Longrightarrow>
    \<exists>m ss1. for_each body acc es = Inr m \<and> the_strs (meeting_locations m) = Inr ss1"
proof (induction es arbitrary: acc ss)
  case Nil
  then show ?case by simp
next
  case (Cons e es)
  from Cons.prems step [of e acc ss] obtain acc1 ss1 where
    "body acc e = Inr acc1" "the_strs (meeting_locations acc1) = Inr ss1"
    by auto
  with Cons.IH [of acc1 ss1] Cons.prems show ?case
    by auto
qed

lemma course_meetings_ok:
  assumes "entries_ok fmt_ok (dict_get c ''_faculty_meeting_times'' JNull)"
    and "entries_ok meeting_ok (dict_get c ''meetingsFaculty'' JNull)"
  shows "\<exists>m ss. course_meetings c = Inr m \<and> the_strs (meeting_locations m) = Inr ss"
proof (cases "truthy (dict_get c ''_faculty_meeting_times'' JNull)")
  case True
  with assms(1) obtain es where "dict_get c ''_faculty_meeting_times'' JNull = JArr es"
    "list_all fmt_ok es"
    by (cases "dict_get c ''_faculty_meeting_times'' JNull") auto
  with True for_each_ok [of fmt_ok fmt_entry es no_meetings "[]", OF fmt_entry_ok]
  show ?thesis
    by (auto simp: course_meetings_def fmt_meetings_def no_meetings_def)
next
  case False
  show ?thesis
  proof (cases "truthy (dict_get c ''meetingsFaculty'' JNull)")
    case True
    with assms(2) obtain es where "dict_get c ''meetingsFaculty'' JNull = JArr es"
      "list_all meeting_ok es"
      by (cases "dict_get c ''meetingsFaculty'' JNull") auto
    with True False for_each_ok [of meeting_ok meeting_entry es no_meetings "[]", OF meeting_entry_ok]
    show ?thesis
      by (auto simp: course_meetings_def embedded_meetings_def no_meetings_def)
  next
    case no: False
    with False show ?thesis
      by (simp add: course_meetings_def no_meetings_def)
  qed
qed

lemma faculty_names_ok:
  assumes "entries_ok faculty_ok (dict_get c ''faculty'' JNull)"
  shows "\<exists>names ss. faculty_names c = Inr names \<and> the_strs names = Inr ss"
proof (cases "truthy (dict_get c ''faculty'' JNull)")
  case True
  with assms obtain fs where "dict_get c ''faculty'' JNull = JArr fs" "list_all faculty_ok fs"
    by (cases "dict_get c ''faculty'' JNull") auto
  with True faculty_loop_ok [of fs] show ?thesis
    by (auto simp: faculty_names_def)
next
  case False
  then show ?thesis by (simp add: faculty_names_def)
qed

text \<open>
  C6. A course record of this shape always flattens: the result is a record with the
  eighteen named fields in their fixed order. Every passed-through field holds the
  value of its key and the empty string when the key is missing (whichever keys are
  missing); Faculty is the empty string when there is no faculty list (missing,
  \<^verbatim>\<open>None\<close> or empty); Meeting Days, Meeting Times and Location are the empty string when
  there is meeting data of neither kind.
\<close>

theorem flatten_never_fails:
  assumes "course_summary course"
  shows "\<exists>c r. course = JObj c \<and> flatten_course_data course = Inr r \<and>
     map fst r = field_names \<and>
     (\<forall>(field, key) \<in> set scalar_fields.
        map_of r field = Some (case map_of c key of None \<Rightarrow> JStr [] | Some v \<Rightarrow> v)) \<and>
     (\<not> truthy (dict_get c ''faculty'' JNull) \<longrightarrow> map_of r ''Faculty'' = Some (JStr [])) \<and>
     (\<not> truthy (dict_get c ''_faculty_meeting_times'' JNull) \<and>
      \<not> truthy (dict_get c ''meetingsFaculty'' JNull) \<longrightarrow>
        map_of r ''Meeting Days'' = Some (JStr []) \<and>
        map_of r ''Meeting Times'' = Some (JStr []) \<and>
        map_of r ''Location'' = Some (JStr []))"
proof -
  from assms obtain c where c: "course = JObj c"
    and shape: "entries_ok faculty_ok (dict_get c ''faculty'' JNull)"
      "entries_ok fmt_ok (dict_get c ''_faculty_meeting_times'' JNull)"
      "entries_ok meeting_ok (dict_get c ''meetingsFaculty'' JNull)"
    by (auto simp: course_summary_def split: jv.splits)
  from faculty_names_ok [OF shape(1)] obtain names ss where
    names: "faculty_names c = Inr names" "the_strs names = Inr ss"
    by blast
  from course_meetings_ok [OF shape(2,3)] obtain m ls where
    m: "course_meetings c = Inr m" "the_strs (meeting_locations m) = Inr ls"
    by blast
  let ?r = "[(''CRN'', dict_get c ''courseReferenceNumber'' (JStr [])),
             (''Subject'', dict_get c ''subject'' (JStr [])),
             (''Course Number'', dict_get c ''courseNumber'' (JStr [])),
             (''Section'', dict_get c ''sequenceNumber'' (JStr [])),
             (''Title'', dict_get c ''courseTitle'' (JStr [])),
             (''Credit Hours'', dict_get c ''creditHours'' (JStr [])),
             (''Schedule Type'', dict_get c ''scheduleTypeDescription'' (JStr [])),
             (''Instructional Method'', dict_get c ''instructionalMethod'' (JStr [])),
             (''Faculty'', JStr (join '', '' ss)),
             (''Meeting Days'', JStr (join '', '' (meeting_days m))),
             (''Meeting Times'', JStr (join '', '' (meeting_times m))),
             (''Location'', JStr (join '', '' ls)),
             (''Campus'', dict_get c ''campusDescription'' (JStr [])),
             (''Enrollment Current'', dict_get c ''enrollment'' (JStr [])),
             (''Enrollment Max'', dict_get c ''maximumEnrollment'' (JStr [])),
             (''Seats Available'', dict_get c ''seatsAvailable'' (JStr [])),
             (''Waitlist Current'', dict_get c ''waitCount'' (JStr [])),
             (''Waitlist Max'', dict_get c ''waitCapacity'' (JStr []))]"
  have r: "flatten_course_data course = Inr ?r"
    using c names m by (simp add: flatten_course_data_def py_join_def)
  have fields: "map fst ?r = field_names"
    by (simp add: field_names_def)
  have scalars: "\<forall>(field, key) \<in> set scalar_fields.
        map_of ?r field = Some (case map_of c key of None \<Rightarrow> JStr [] | Some v \<Rightarrow> v)"
    by (simp add: scalar_fields_def dict_get_def)
  have faculty: "map_of ?r ''Faculty'' = Some (JStr [])"
    if "\<not> truthy (dict_get c ''faculty'' JNull)"
    using that names by (auto simp: faculty_names_def)
  have meetings: "map_of ?r ''Meeting Days'' = Some (JStr []) \<and>
        map_of ?r ''Meeting Times'' = Some (JStr []) \<and>
        map_of ?r ''Location'' = Some (JStr [])"
    if "\<not> truthy (dict_get c ''_faculty_meeting_times'' JNull) \<and>
      \<not> truthy (dict_get c ''meetingsFaculty'' JNull)"
    using that m by (auto simp: course_meetings_def no_meetings_def)
  from c r fields scalars faculty meetings show ?thesis
    by blast
qed

theorem flatten_never_fails_witness:
  "\<exists>r. flatten_course_data
          (JObj [(''subject'', JStr ''COMP''), (''faculty'', JNull), (''creditHours'', JInt 4)])
        = Inr r \<and>
      map fst r = field_names \<and>
      map_of r ''CRN'' = Some (JStr []) \<and>
      map_of r ''Subject'' = Some (JStr ''COMP'') \<and>
      map_of r ''Credit Hours'' = Some (JInt 4) \<and>
      map_of r ''Faculty'' = Some (JStr []) \<and>
      map_of r ''Meeting Days'' = Some (JStr []) \<and>
      map_of r ''Meeting Times'' = Some (JStr []) \<and>
      map_of r ''Location'' = Some (JStr [])"
proof -
  let ?c = "[(''subject'', JStr ''COMP''), (''faculty'', JNull), (''creditHours'', JInt 4)]"
  have shape: "course_summary (JObj ?c)"
    by (simp add: course_summary_def dict_get_def)
  from flatten_never_fails [OF shape] obtain r where
    r: "flatten_course_data (JObj ?c) = Inr r" "map fst r = field_names"
    and scalars: "\<forall>(field, key) \<in> set scalar_fields.
        map_of r field = Some (case map_of ?c key of None \<Rightarrow> JStr [] | Some v \<Rightarrow> v)"
    and faculty: "\<not> truthy (dict_get ?c ''faculty'' JNull) \<longrightarrow>
        map_of r ''Faculty'' = Some (JStr [])"
    and meetings: "\<not> truthy (dict_get ?c ''_faculty_meeting_times'' JNull) \<and>
      \<not> truthy (dict_get ?c ''meetingsFaculty'' JNull) \<longrightarrow>
        map_of r ''Meeting Days'' = Some (JStr []) \<and>
        map_of r ''Meeting Times'' = Some (JStr []) \<and>
        map_of r ''Location'' = Some (JStr [])"
    by auto
  from scalars have "map_of r ''CRN'' = Some (JStr [])"
    "map_of r ''Subject'' = Some (JStr ''COMP'')" "map_of r ''Credit Hours'' = Some (JInt 4)"
    by (simp_all add: scalar_fields_def)
  moreover from faculty have "map_of r ''Faculty'' = Some (JStr [])"
    by (simp add: dict_get_def)
  moreover from meetings have "map_of r ''Meeting Days'' = Some (JStr []) \<and>
        map_of r ''Meeting Times'' = Some (JStr []) \<and>
        map_of r ''Location'' = Some (JStr [])"
    by (simp add: dict_get_def)
  ultimately show ?thesis
    using r by blast
qed

section \<open>Enrichment and the flattened record\<close>

lemma filter_dict_set:
  "k \<in> K \<Longrightarrow> filter (\<lambda>p. fst p \<notin> K) (dict_set kvs k v) = filter (\<lambda>p. fst p \<notin> K) kvs"
  unfolding dict_set_def by (induction kvs) auto

lemma map_of_filter_keys:
  "k \<notin> K \<Longrightarrow> map_of (filter (\<lambda>p. fst p \<notin> K) kvs) k = map_of kvs k"
  by (induction kvs) auto

lemma same_summary_map_of:
  assumes "same_summary (JObj c) (JObj c1)" and "k \<notin> attachment_keys"
  shows "map_of c1 k = map_of c k"
proof -
  from assms(1) have "filter (\<lambda>p. fst p \<notin> attachment_keys) c1
      = filter (\<lambda>p. fst p \<notin> attachment_keys) c"
    by (simp add: same_summary_def)
  then have "map_of (filter (\<lambda>p. fst p \<notin> attachment_keys) c1) k
      = map_of (filter (\<lambda>p. fst p \<notin> attachment_keys) c) k"
    by simp
  with assms(2) show ?thesis
    by (simp add: map_of_filter_keys)
qed

lemma enrich_course_same_summary:
  assumes "enrich_course srv term course cl = (Inr course1, cl1)"
  shows "same_summary course course1"
proof -
  from assms obtain c where c: "course = JObj c"
    by (cases course) (auto simp: enrich_course_def)
  have d: "filter (\<lambda>p. fst p \<notin> attachment_keys) (dict_set kvs ''_detailed'' v)
      = filter (\<lambda>p. fst p \<notin> attachment_keys) kvs" for kvs v
    by (rule filter_dict_set) (simp add: attachment_keys_def)
  have f: "filter (\<lambda>p. fst p \<notin> attachment_keys) (dict_set kvs ''_faculty_meeting_times'' v)
      = filter (\<lambda>p. fst p \<notin> attachment_keys) kvs" for kvs v
    by (rule filter_dict_set) (simp add: attachment_keys_def)
  from assms c show ?thesis
    by (auto simp: enrich_course_def same_summary_def Let_def d f
        split: if_splits prod.splits sum.splits)
qed

lemma enrich_same_summary:
  "enrich srv term xs cl = (Inr ys, cl1) \<Longrightarrow> list_all2 same_summary xs ys"
proof (induction xs arbitrary: ys cl)
  case Nil
  then show ?case by simp
next
  case (Cons x xs)
  then show ?case
    by (auto split: prod.splits sum.splits dest: enrich_course_same_summary)
qed

lemma flatten_same_summary:
  assumes same: "same_summary (JObj c) (JObj c1)"
    and rx: "flatten_course_data (JObj c) = Inr rx"
    and ry: "flatten_course_data (JObj c1) = Inr ry"
    and f: "f \<notin> meeting_fields"
  shows "map_of ry f = map_of rx f"
proof -
  have get: "dict_get c1 k d = dict_get c k d" if "k \<notin> attachment_keys" for k d
    using same_summary_map_of [OF same that] by (simp add: dict_get_def)
  have "faculty_names c1 = faculty_names c"
    by (simp add: faculty_names_def get attachment_keys_def)
  with rx ry f show ?thesis
    by (auto simp: flatten_course_data_def get attachment_keys_def meeting_fields_def
        split: sum.splits)
qed

text \<open>
  C8. Run from the same client against the same service, a catalog fetch with details
  that returns a sequence has a counterpart without details that returns a sequence of
  the same length, and position by position the detailed course is the plain course
  with attachments: its entries under all keys but \<^verbatim>\<open>_detailed\<close> and
  \<^verbatim>\<open>_faculty_meeting_times\<close> are the same, in the same order. Where both courses flatten,
  every field but Meeting Days, Meeting Times and Location is the same.
\<close>

theorem detailed_keeps_summaries:
  assumes "get_course_catalog srv term True cl = Some (Inr ys, cl2)"
  shows "\<exists>xs cl1. get_course_catalog srv term False cl = Some (Inr xs, cl1) \<and>
     length ys = length xs \<and>
     (\<forall>i<length xs.
        same_summary (xs ! i) (ys ! i) \<and>
        (\<forall>rx ry f. flatten_course_data (xs ! i) = Inr rx \<and>
           flatten_course_data (ys ! i) = Inr ry \<and> f \<notin> meeting_fields \<longrightarrow>
           map_of ry f = map_of rx f))"
proof -
  from assms obtain j cl0 xs cl1 where
    init: "initialize_search_session srv term cl = (Inr j, cl0)"
    and loop: "fetch_loop srv term \<lparr>offset = 0, total_count = JNull, all_courses = []\<rparr> cl0
        = Some (Inr xs, cl1)"
    and ys: "(if xs \<noteq> [] then enrich srv term xs cl1 else (Inr xs, cl1)) = (Inr ys, cl2)"
    by (auto simp: get_course_catalog_def split: prod.splits sum.splits if_splits option.splits)
  have plain: "get_course_catalog srv term False cl = Some (Inr xs, cl1)"
    using init loop by (simp add: get_course_catalog_def)
  have rel: "list_all2 same_summary xs ys"
  proof (cases "xs = []")
    case True
    with ys show ?thesis by simp
  next
    case False
    with ys show ?thesis by (simp add: enrich_same_summary)
  qed
  have fields: "map_of ry f = map_of rx f"
    if "i < length xs" "flatten_course_data (xs ! i) = Inr rx"
      "flatten_course_data (ys ! i) = Inr ry" "f \<notin> meeting_fields" for i rx ry f
  proof -
    from rel that(1) have s: "same_summary (xs ! i) (ys ! i)"
      by (simp add: list_all2_nthD)
    then obtain c c1 where "xs ! i = JObj c" "ys ! i = JObj c1"
      by (auto simp: same_summary_def split: jv.splits)
    with s that show ?thesis
      using flatten_same_summary [of c c1 rx ry f] by simp
  qed
  from plain rel fields show ?thesis
    by (auto simp: list_all2_lengthD list_all2_nthD)
qed

theorem detailed_keeps_summaries_witness:
  "get_course_catalog
     (\<lambda>h rq. case rq of
          TermSearch t \<Rightarrow>
            Response \<lparr>status_code = 200, cookies = [(''JSESSIONID'', Some ''abc'')], content = NoText\<rparr>
        | SearchResults t off ps c \<Rightarrow>
            Response \<lparr>status_code = 200, cookies = [],
              content = Json (JObj [(''totalCount'', JInt 1),
                (''data'', JArr [JObj [(''courseReferenceNumber'', JStr ''111''),
                                       (''subject'', JStr ''COMP'')]])])\<rparr>
        | ClassDetails t crn \<Rightarrow>
            Response \<lparr>status_code = 200, cookies = [], content = Json (JObj [(''x'', JInt 1)])\<rparr>
        | FacultyMeetingTimes t crn \<Rightarrow>
            Response \<lparr>status_code = 200, cookies = [],
              content = Json (JObj [(''fmt'',
                JArr [JObj [(''meetingTime'', JObj [(''monday'', JBool True)])]])])\<rparr>)
     ''202510'' False \<lparr>session_cookie = None, sent = []\<rparr>
   = Some (Inr [JObj [(''courseReferenceNumber'', JStr ''111''), (''subject'', JStr ''COMP'')]],
      \<lparr>session_cookie = Some ''abc'',
       sent = [TermSearch ''202510'', SearchResults ''202510'' 0 500 ''abc'']\<rparr>) \<and>
   same_summary
     (JObj [(''courseReferenceNumber'', JStr ''111''), (''subject'', JStr ''COMP'')])
     (JObj [(''courseReferenceNumber'', JStr ''111''), (''subject'', JStr ''COMP''),
            (''_detailed'', JObj [(''x'', JInt 1)]),
            (''_faculty_meeting_times'',
               JArr [JObj [(''meetingTime'', JObj [(''monday'', JBool True)])]])])"
proof -
  let ?srv = "\<lambda>(h :: request list) rq. case rq of
          TermSearch t \<Rightarrow>
            Response \<lparr>status_code = 200, cookies = [(''JSESSIONID'', Some ''abc'')], content = NoText\<rparr>
        | SearchResults t off ps c \<Rightarrow>
            Response \<lparr>status_code = 200, cookies = [],
              content = Json (JObj [(''totalCount'', JInt 1),
                (''data'', JArr [JObj [(''courseReferenceNumber'', JStr ''111''),
                                       (''subject'', JStr ''COMP'')]])])\<rparr>
        | ClassDetails t crn \<Rightarrow>
            Response \<lparr>status_code = 200, cookies = [], content = Json (JObj [(''x'', JInt 1)])\<rparr>
        | FacultyMeetingTimes t crn \<Rightarrow>
            Response \<lparr>status_code = 200, cookies = [],
              content = Json (JObj [(''fmt'',
                JArr [JObj [(''meetingTime'', JObj [(''monday'', JBool True)])]])])\<rparr>"
  let ?cl = "\<lparr>session_cookie = None, sent = []\<rparr>"
  let ?plain = "JObj [(''courseReferenceNumber'', JStr ''111''), (''subject'', JStr ''COMP'')]"
  let ?enriched = "JObj [(''courseReferenceNumber'', JStr ''111''), (''subject'', JStr ''COMP''),
            (''_detailed'', JObj [(''x'', JInt 1)]),
            (''_faculty_meeting_times'',
               JArr [JObj [(''meetingTime'', JObj [(''monday'', JBool True)])]])]"
  let ?c0 = "\<lparr>session_cookie = Some ''abc'', sent = [TermSearch ''202510'']\<rparr>"
  let ?c1 = "\<lparr>session_cookie = Some ''abc'',
          sent = [TermSearch ''202510'', SearchResults ''202510'' 0 500 ''abc'']\<rparr>"
  have init: "initialize_search_session ?srv ''202510'' ?cl = (Inr ''abc'', ?c0)"
    by (simp add: initialize_search_session_def send_def raise_for_status_def cookies_get_def)
  have loop: "fetch_loop ?srv ''202510'' \<lparr>offset = 0, total_count = JNull, all_courses = []\<rparr> ?c0
      = Some (Inr [?plain], ?c1)"
    by (subst fetch_loop.simps)
      (simp add: loop_body_def fetch_catalog_page_def send_def raise_for_status_def json_def
        page_size_def dict_get_def)
  have enriched: "enrich ?srv ''202510'' [?plain] ?c1
      = (Inr [?enriched],
         \<lparr>session_cookie = Some ''abc'',
          sent = [TermSearch ''202510'', SearchResults ''202510'' 0 500 ''abc'',
                  ClassDetails ''202510'' (JStr ''111''),
                  FacultyMeetingTimes ''202510'' (JStr ''111'')]\<rparr>)"
    by code_simp
  have detailed: "get_course_catalog ?srv ''202510'' True ?cl
      = Some (Inr [?enriched],
         \<lparr>session_cookie = Some ''abc'',
          sent = [TermSearch ''202510'', SearchResults ''202510'' 0 500 ''abc'',
                  ClassDetails ''202510'' (JStr ''111''),
                  FacultyMeetingTimes ''202510'' (JStr ''111'')]\<rparr>)"
    unfolding get_course_catalog_def init using loop enriched by simp
  have quick: "get_course_catalog ?srv ''202510'' False ?cl = Some (Inr [?plain], ?c1)"
    unfolding get_course_catalog_def init using loop by simp
  from detailed_keeps_summaries [OF detailed] quick
  have "same_summary ([?plain] ! 0) ([?enriched] ! 0)"
    by auto
  with quick show ?thesis
    by simp
qed

end
